theory Spec2Isabelle
  imports Main "HOL-Library.Sublist"
begin

section \<open>Data model of \<open>src/components/copy.tsx\<close>\<close>

text \<open>
  The component \<open>PhantomConnect\<close> keeps three pieces of React state (\<open>walletKey\<close>,
  \<open>tokens\<close>, \<open>signature\<close>) and talks to a browser-injected wallet provider, to an RPC
  connection and to the token and compression libraries. A thrown JavaScript value is a
  value of type \<open>error\<close>; a computation that may throw returns \<open>error + 'a\<close>.
\<close>

datatype error = Error string | TypeError string

datatype PublicKey = PublicKey (toBase58: string)

datatype Keypair = Keypair (payerKey: PublicKey)

type_synonym BN = int

text \<open>\<open>interface TokenInfo\<close> (lines 18 to 22).\<close>

record TokenInfo =
  mintAddress :: string
  amount :: string
  selected :: bool

text \<open>
  \<open>TokenInfo\<close> values are JavaScript objects: the array \<open>tokens\<close> holds references, and
  \<open>handleCheckboxChange\<close> writes through one of them. A reference is an address of the
  object store; \<open>fresh\<close> is the next address an object literal is allocated at.
\<close>

type_synonym ref = nat

record component =
  walletKey :: "PublicKey option"
  tokens :: "ref list"
  signature :: "string option"

text \<open>
  What the RPC call \<open>getParsedTokenAccountsByOwner\<close> returns in \<open>value\<close>: for every token
  account its address \<open>pubkey\<close> and \<open>account.data.parsed.info\<close>, of which the code reads
  \<open>mint\<close> and \<open>tokenAmount.uiAmountString\<close>. \<open>rawAmount\<close> is the field
  \<open>tokenAmount.amount\<close>, the integer amount in base units, which the code never reads.
\<close>

record TokenAmount =
  rawAmount :: string
  decimals :: nat
  uiAmountString :: string

record ParsedInfo =
  mint :: string
  tokenAmount :: TokenAmount

record ParsedTokenAccount =
  pubkey :: PublicKey
  info :: ParsedInfo

datatype TokenAccountsFilter = ProgramIdFilter PublicKey | MintFilter PublicKey

datatype AccountInfo = AccountInfo nat

datatype TransactionResponse = TransactionResponse "string list"

text \<open>The account descriptor built at lines 150 to 160 for the compression library.\<close>

record CompressedAccount =
  hash :: string
  caAmount :: BN
  caOwner :: PublicKey
  lamports :: BN
  address :: "PublicKey option"
  data :: "nat list"

record InputAccount =
  compressedAccount :: CompressedAccount
  parsed :: ParsedInfo

text \<open>The argument object of \<open>CompressedTokenProgram.compress\<close> (lines 178 to 185).\<close>

record CompressParams =
  cpPayer :: PublicKey
  cpMint :: PublicKey
  cpOwner :: PublicKey
  cpAmount :: BN
  cpToAddress :: PublicKey
  cpSource :: PublicKey

text \<open>
  The instruction encoders belong to the libraries. An instruction is kept as the library
  call that built it, with the arguments in the order the code passes them.
\<close>

datatype TransactionInstruction =
    CreateAssociatedTokenAccountIx PublicKey PublicKey PublicKey PublicKey PublicKey
  | CompressIx CompressParams

record Transaction =
  instructions :: "TransactionInstruction list"
  recentBlockhash :: "string option"
  feePayer :: "PublicKey option"
  signers :: "PublicKey list"

text \<open>\<open>window.solana\<close>: \<open>None\<close> when the property is absent or nullish.\<close>

record Injected =
  isPhantom :: bool

text \<open>
  Everything the component does to the outside is recorded, in order, as an event. A call
  that can fail carries its outcome: \<open>Inl\<close> the thrown error (a rejected promise),
  \<open>Inr\<close> the value returned. A console event keeps the message and the values
  printed after it.
\<close>

datatype payload = PString string | PError error | PResponse "TransactionResponse option"

datatype event =
    Alert string
  | ConsoleLog string "payload list"
  | ConsoleError string "payload list"
  | WindowOpen string string
  | ProviderConnect "error + PublicKey"
  | ProviderDisconnect "error + unit"
  | SignAndSendTransaction Transaction "error + string"
  | GetParsedTokenAccountsByOwner PublicKey TokenAccountsFilter "error + ParsedTokenAccount list"
  | GetAccountInfo PublicKey "error + AccountInfo option"
  | GetLatestBlockhash "error + string"
  | ConfirmTransaction string "error + unit"
  | GetTransaction string "error + TransactionResponse option"
  | KeypairGenerate "error + Keypair"
  | TransactionSign Transaction Keypair "error + unit"
  | SelectMinCompressedTokenAccountsForTransfer "InputAccount list" BN "error + InputAccount list"
  | Compress CompressParams "error + unit"

text \<open>
  The outside world is a parameter: \<open>'w\<close> is its state, and every external operation is a
  function of it that returns an outcome and the next world. Constructors and pure
  helpers of the libraries that can throw (\<open>new PublicKey\<close>, \<open>new BN\<close> of a string,
  \<open>getAssociatedTokenAddress\<close>) are functions of their arguments alone.
\<close>

record 'w env =
  window_solana :: "'w \<Rightarrow> Injected option"
  connect :: "'w \<Rightarrow> (error + PublicKey) \<times> 'w"
  disconnect :: "'w \<Rightarrow> (error + unit) \<times> 'w"
  signAndSendTransaction :: "Transaction \<Rightarrow> 'w \<Rightarrow> (error + string) \<times> 'w"
  getParsedTokenAccountsByOwner ::
    "PublicKey \<Rightarrow> TokenAccountsFilter \<Rightarrow> 'w \<Rightarrow> (error + ParsedTokenAccount list) \<times> 'w"
  getAccountInfo :: "PublicKey \<Rightarrow> 'w \<Rightarrow> (error + AccountInfo option) \<times> 'w"
  getLatestBlockhash :: "'w \<Rightarrow> (error + string) \<times> 'w"
  confirmTransaction :: "string \<Rightarrow> 'w \<Rightarrow> (error + unit) \<times> 'w"
  getTransaction :: "string \<Rightarrow> 'w \<Rightarrow> (error + TransactionResponse option) \<times> 'w"
  generate :: "'w \<Rightarrow> (error + Keypair) \<times> 'w"
  sign :: "Transaction \<Rightarrow> Keypair \<Rightarrow> 'w \<Rightarrow> (error + unit) \<times> 'w"
  selectMinCompressedTokenAccountsForTransfer ::
    "InputAccount list \<Rightarrow> BN \<Rightarrow> 'w \<Rightarrow> (error + InputAccount list) \<times> 'w"
  compress :: "CompressParams \<Rightarrow> 'w \<Rightarrow> (error + unit) \<times> 'w"
  newPublicKey :: "string \<Rightarrow> error + PublicKey"
  newBN :: "string \<Rightarrow> error + BN"
  getAssociatedTokenAddress ::
    "PublicKey \<Rightarrow> PublicKey \<Rightarrow> bool \<Rightarrow> PublicKey \<Rightarrow> PublicKey \<Rightarrow> error + PublicKey"

text \<open>
  A run of a handler threads the world, the object store, the state React holds (what the
  setters have written so far) and the events emitted so far.
\<close>

record 'w run =
  world :: 'w
  objects :: "ref \<Rightarrow> TokenInfo"
  fresh :: ref
  react :: component
  trace :: "event list"

type_synonym ('w, 'a) M = "'w run \<Rightarrow> (error + 'a) \<times> 'w run"

definition returnM :: "'a \<Rightarrow> ('w, 'a) M" where
  "returnM a r = (Inr a, r)"

definition throwM :: "error \<Rightarrow> ('w, 'a) M" where
  "throwM e r = (Inl e, r)"

text \<open>Sequencing: a throw skips the rest of the block.\<close>

definition bindM :: "('w, 'a) M \<Rightarrow> ('a \<Rightarrow> ('w, 'b) M) \<Rightarrow> ('w, 'b) M" where
  "bindM m f r = (case m r of (Inl e, r') \<Rightarrow> (Inl e, r') | (Inr a, r') \<Rightarrow> f a r')"

text \<open>\<open>try { body } catch (e) { handler }\<close>.\<close>

definition try_catch :: "('w, 'a) M \<Rightarrow> (error \<Rightarrow> ('w, 'a) M) \<Rightarrow> ('w, 'a) M" where
  "try_catch body handler r =
     (case body r of (Inl e, r') \<Rightarrow> handler e r' | (Inr a, r') \<Rightarrow> (Inr a, r'))"

definition emit :: "event \<Rightarrow> ('w, unit) M" where
  "emit e r = (Inr (), r\<lparr>trace := trace r @ [e]\<rparr>)"

text \<open>An external call: ask the world, record the call with its outcome, return or throw.\<close>

definition call :: "('w \<Rightarrow> (error + 'a) \<times> 'w) \<Rightarrow> ((error + 'a) \<Rightarrow> event) \<Rightarrow> ('w, 'a) M" where
  "call f ev r =
     (case f (world r) of (res, w') \<Rightarrow> (res, r\<lparr>world := w', trace := trace r @ [ev res]\<rparr>))"

text \<open>A pure library function that may throw.\<close>

definition lib :: "error + 'a \<Rightarrow> ('w, 'a) M" where
  "lib res r = (res, r)"

text \<open>Reading the run: the object store or the state.\<close>

definition gets :: "('w run \<Rightarrow> 'a) \<Rightarrow> ('w, 'a) M" where
  "gets f r = (Inr (f r), r)"

text \<open>A call to an async function whose promise is not awaited: its outcome is dropped.\<close>

definition not_awaited :: "('w, 'a) M \<Rightarrow> ('w, unit) M" where
  "not_awaited m r = (Inr (), snd (m r))"

definition setWalletKey :: "PublicKey option \<Rightarrow> ('w, unit) M" where
  "setWalletKey k r = (Inr (), r\<lparr>react := (react r)\<lparr>walletKey := k\<rparr>\<rparr>)"

definition setTokens :: "ref list \<Rightarrow> ('w, unit) M" where
  "setTokens ts r = (Inr (), r\<lparr>react := (react r)\<lparr>tokens := ts\<rparr>\<rparr>)"

definition setSignature :: "string option \<Rightarrow> ('w, unit) M" where
  "setSignature sg r = (Inr (), r\<lparr>react := (react r)\<lparr>signature := sg\<rparr>\<rparr>)"

text \<open>An object literal \<open>{ mintAddress, amount, selected }\<close> allocates a new object.\<close>

definition new_object :: "TokenInfo \<Rightarrow> ('w, ref) M" where
  "new_object v r = (Inr (fresh r), r\<lparr>objects := (objects r)(fresh r := v), fresh := Suc (fresh r)\<rparr>)"

text \<open>\<open>Array.prototype.map\<close> with a callback that has effects, left to right.\<close>

fun mapM :: "('a \<Rightarrow> ('w, 'b) M) \<Rightarrow> 'a list \<Rightarrow> ('w, 'b list) M" where
  "mapM f [] = returnM []"
| "mapM f (x # xs) = bindM (f x) (\<lambda>y. bindM (mapM f xs) (\<lambda>ys. returnM (y # ys)))"

text \<open>The token list as the render sees it: the objects the references point to.\<close>

definition token_list :: "'w run \<Rightarrow> TokenInfo list" where
  "token_list r = map (objects r) (tokens (react r))"

text \<open>Library constants of \<open>@solana/spl-token\<close>.\<close>

definition TOKEN_PROGRAM_ID :: PublicKey where
  "TOKEN_PROGRAM_ID = PublicKey ''TokenkegQfeZyiNwAJbNbGKPFXCWuBvf9Ss623VQ5DA''"

definition ASSOCIATED_TOKEN_PROGRAM_ID :: PublicKey where
  "ASSOCIATED_TOKEN_PROGRAM_ID = PublicKey ''ATokenGPvbdGVxr1b2hvZbsiqW5xWH25efTNsLJA8knL''"

section \<open>Wallet connector and token lister\<close>

text \<open>
  \<open>getProvider\<close> (lines 30 to 38): the injected object when \<open>window.solana\<close> is there and
  its \<open>isPhantom\<close> is truthy; otherwise the install page is opened and nothing is returned.
\<close>

definition getProvider :: "'w env \<Rightarrow> ('w, Injected option) M" where
  "getProvider env r =
     (case window_solana env (world r) of
        Some provider \<Rightarrow>
          if isPhantom provider then returnM (Some provider) r
          else bindM (emit (WindowOpen ''https://phantom.app/'' ''_blank'')) (\<lambda>_. returnM None) r
      | None \<Rightarrow> bindM (emit (WindowOpen ''https://phantom.app/'' ''_blank'')) (\<lambda>_. returnM None) r)"

text \<open>\<open>fetchTokens\<close> (lines 56 to 74).\<close>

definition fetchTokens :: "'w env \<Rightarrow> PublicKey \<Rightarrow> ('w, unit) M" where
  "fetchTokens env pk =
     try_catch
       (bindM (call (getParsedTokenAccountsByOwner env pk (ProgramIdFilter TOKEN_PROGRAM_ID))
                 (GetParsedTokenAccountsByOwner pk (ProgramIdFilter TOKEN_PROGRAM_ID)))
          (\<lambda>tokenAccountsList.
        bindM (mapM (\<lambda>tokenAccountInfo.
                 let accountData = info tokenAccountInfo;
                     mintAddress = mint accountData;
                     amount = uiAmountString (tokenAmount accountData)
                 in new_object \<lparr>mintAddress = mintAddress, amount = amount, selected = False\<rparr>)
               tokenAccountsList)
          (\<lambda>tokensInfo. setTokens tokensInfo)))
       (\<lambda>error. emit (ConsoleLog ''Error fetching tokens:'' [PError error]))"

text \<open>
  \<open>connectWallet\<close> (lines 41 to 53). The promise of \<open>fetchTokens\<close> is not awaited; the
  model runs it to its end at once.
\<close>

definition connectWallet :: "'w env \<Rightarrow> ('w, unit) M" where
  "connectWallet env =
     bindM (getProvider env) (\<lambda>provider.
       case provider of
         None \<Rightarrow> returnM ()
       | Some p \<Rightarrow>
           try_catch
             (bindM (call (connect env) ProviderConnect) (\<lambda>resp.
              bindM (setWalletKey (Some resp)) (\<lambda>_.
              bindM (emit (ConsoleLog ''Connected with publicKey:'' [PString (toBase58 resp)])) (\<lambda>_.
              not_awaited (fetchTokens env resp)))))
             (\<lambda>err. emit (ConsoleLog ''Connection error:'' [PError err])))"

text \<open>\<open>disconnectWallet\<close> (lines 77 to 89).\<close>

definition disconnectWallet :: "'w env \<Rightarrow> ('w, unit) M" where
  "disconnectWallet env =
     bindM (getProvider env) (\<lambda>provider.
       case provider of
         None \<Rightarrow> returnM ()
       | Some p \<Rightarrow>
           try_catch
             (bindM (call (disconnect env) ProviderDisconnect) (\<lambda>_.
              bindM (setWalletKey None) (\<lambda>_.
              bindM (setTokens []) (\<lambda>_.
              emit (ConsoleLog ''Disconnected'' [])))))
             (\<lambda>err. emit (ConsoleLog ''Disconnection error:'' [PError err])))"

text \<open>
  \<open>handleCheckboxChange\<close> (lines 92 to 96). \<open>[...tokens]\<close> copies the references, not
  the objects; the assignment writes the object at \<open>updatedTokens[index]\<close> in place. Out
  of range \<open>updatedTokens[index]\<close> is \<open>undefined\<close> and reading its \<open>selected\<close> throws.
\<close>

definition handleCheckboxChange :: "nat \<Rightarrow> ('w, unit) M" where
  "handleCheckboxChange index r =
     (let updatedTokens = tokens (react r) in
      if index < length updatedTokens then
        (let a = updatedTokens ! index;
             r1 = r\<lparr>objects := (objects r)(a := (objects r a)\<lparr>selected := \<not> selected (objects r a)\<rparr>)\<rparr>
         in setTokens updatedTokens r1)
      else throwM (TypeError ''Cannot read properties of undefined'') r)"

text \<open>
  The provider's event handlers registered on mount (lines 215 to 240): \<open>connect\<close>,
  \<open>disconnect\<close> and \<open>accountChange\<close>.
\<close>

definition onConnect :: "'w env \<Rightarrow> PublicKey \<Rightarrow> ('w, unit) M" where
  "onConnect env pk =
     bindM (emit (ConsoleLog ''Connected to wallet:'' [PString (toBase58 pk)])) (\<lambda>_.
     bindM (setWalletKey (Some pk)) (\<lambda>_.
     not_awaited (fetchTokens env pk)))"

definition onDisconnect :: "('w, unit) M" where
  "onDisconnect =
     bindM (emit (ConsoleLog ''Disconnected from wallet'' [])) (\<lambda>_.
     bindM (setWalletKey None) (\<lambda>_.
     setTokens []))"

definition onAccountChange :: "'w env \<Rightarrow> PublicKey option \<Rightarrow> ('w, unit) M" where
  "onAccountChange env k =
     (case k of
        Some pk \<Rightarrow>
          bindM (emit (ConsoleLog (''Switched to new wallet: '' @ toBase58 pk) [])) (\<lambda>_.
          bindM (setWalletKey (Some pk)) (\<lambda>_.
          not_awaited (fetchTokens env pk)))
      | None \<Rightarrow> emit (ConsoleLog ''Account changed, but no account is currently connected.'' []))"

section \<open>Compression orchestrator\<close>

text \<open>
  The body of \<open>if (!accountInfo)\<close> (lines 128 to 145): build the creation instruction,
  put it in a transaction, stamp it with a recent blockhash and the fee payer, sign it
  with the ephemeral payer, submit it through the provider and wait for confirmation.
\<close>

definition createAssociatedAccount ::
  "'w env \<Rightarrow> Keypair \<Rightarrow> PublicKey \<Rightarrow> PublicKey \<Rightarrow> PublicKey \<Rightarrow> ('w, unit) M" where
  "createAssociatedAccount env payer publicKey ata = (\<lambda>mint.
     (let createAccountIx =
            CreateAssociatedTokenAccountIx (payerKey payer) publicKey mint
              ASSOCIATED_TOKEN_PROGRAM_ID TOKEN_PROGRAM_ID;
          transaction =
            \<lparr>instructions = [createAccountIx], recentBlockhash = None, feePayer = None,
             signers = []\<rparr>
      in
      bindM (call (getLatestBlockhash env) GetLatestBlockhash) (\<lambda>blockhash.
      let transaction = transaction\<lparr>recentBlockhash := Some blockhash\<rparr>;
          transaction = transaction\<lparr>feePayer := Some (payerKey payer)\<rparr>
      in
      bindM (call (sign env transaction payer) (TransactionSign transaction payer)) (\<lambda>_.
      let transaction = transaction\<lparr>signers := [payerKey payer]\<rparr> in
      bindM (call (signAndSendTransaction env transaction) (SignAndSendTransaction transaction))
        (\<lambda>txSignature.
      bindM (call (confirmTransaction env txSignature) (ConfirmTransaction txSignature)) (\<lambda>_.
      emit (ConsoleLog ''Created associated token account:'' [PString (toBase58 ata)])))))))"

text \<open>
  The callback of \<open>tokenAccountsList.value.map\<close> (lines 150 to 160). The properties of
  the object literal are evaluated in order: \<open>new BN\<close> of the amount string, then
  \<open>new PublicKey\<close> of the account address.
\<close>

definition toInputAccount :: "'w env \<Rightarrow> PublicKey \<Rightarrow> ParsedTokenAccount \<Rightarrow> ('w, InputAccount) M" where
  "toInputAccount env publicKey accountInfo =
     bindM (lib (newBN env (uiAmountString (tokenAmount (info accountInfo))))) (\<lambda>amt.
     bindM (lib (newPublicKey env (toBase58 (pubkey accountInfo)))) (\<lambda>addr.
     returnM
       \<lparr>compressedAccount =
          \<lparr>hash = mint (info accountInfo), caAmount = amt, caOwner = publicKey,
           lamports = 1, address = Some addr, data = []\<rparr>,
        parsed = info accountInfo\<rparr>))"

text \<open>
  The \<open>try\<close> block of \<open>compressTokens\<close> (lines 108 to 197). \<open>s\<close> is the state the
  handler closed over when it was rendered: \<open>walletKey\<close> is read from it, not from what
  the setters have written since. \<open>selectedToken\<close> is the reference \<open>selectedTokens[0]\<close>.
  \<open>accountInfo\<close> is an object or \<open>null\<close>, so \<open>!accountInfo\<close> holds exactly for \<open>None\<close>.
\<close>

definition compressTokens_try :: "'w env \<Rightarrow> component \<Rightarrow> ref \<Rightarrow> ('w, unit) M" where
  "compressTokens_try env s selectedToken =
     bindM (getProvider env) (\<lambda>provider.
     case provider of
       None \<Rightarrow> throwM (Error ''Wallet not connected'')
     | Some provider \<Rightarrow>
     (case walletKey s of
       None \<Rightarrow> throwM (Error ''Wallet not connected'')
     | Some publicKey \<Rightarrow>
     bindM (call (generate env) KeypairGenerate) (\<lambda>payer.
     bindM (gets (\<lambda>r. mintAddress (objects r selectedToken))) (\<lambda>selectedToken_mintAddress.
     bindM (lib (newPublicKey env selectedToken_mintAddress)) (\<lambda>mint.
     bindM (lib (getAssociatedTokenAddress env mint publicKey False
                   ASSOCIATED_TOKEN_PROGRAM_ID TOKEN_PROGRAM_ID)) (\<lambda>ata.
     bindM (call (getAccountInfo env ata) (GetAccountInfo ata)) (\<lambda>accountInfo.
     bindM (case accountInfo of
              None \<Rightarrow> createAssociatedAccount env payer publicKey ata mint
            | Some _ \<Rightarrow> returnM ()) (\<lambda>_.
     bindM (call (getParsedTokenAccountsByOwner env publicKey (MintFilter mint))
              (GetParsedTokenAccountsByOwner publicKey (MintFilter mint))) (\<lambda>tokenAccountsList.
     bindM (mapM (toInputAccount env publicKey) tokenAccountsList) (\<lambda>parsedAccounts.
     let amount = 100000000 in
     bindM (call (selectMinCompressedTokenAccountsForTransfer env parsedAccounts amount)
              (SelectMinCompressedTokenAccountsForTransfer parsedAccounts amount))
       (\<lambda>inputAccounts.
     if length inputAccounts = 0 then throwM (Error ''No input accounts found for compression.'')
     else
     (case address (compressedAccount (inputAccounts ! 0)) of
       None \<Rightarrow> throwM (Error ''No source address found for compression.'')
     | Some sourceAddress \<Rightarrow>
     bindM (lib (newPublicKey env (toBase58 sourceAddress))) (\<lambda>sourcePublicKey.
     let params =
           \<lparr>cpPayer = payerKey payer, cpMint = mint, cpOwner = publicKey,
            cpAmount = amount, cpToAddress = publicKey, cpSource = sourcePublicKey\<rparr>
     in
     bindM (call (compress env params) (Compress params)) (\<lambda>_.
     let compressIx = CompressIx params;
         transaction =
           \<lparr>instructions = [compressIx], recentBlockhash = None, feePayer = None,
            signers = []\<rparr>
     in
     bindM (call (getLatestBlockhash env) GetLatestBlockhash) (\<lambda>blockhash.
     let transaction = transaction\<lparr>recentBlockhash := Some blockhash\<rparr>;
         transaction = transaction\<lparr>feePayer := Some (payerKey payer)\<rparr>
     in
     bindM (call (sign env transaction payer) (TransactionSign transaction payer)) (\<lambda>_.
     let transaction = transaction\<lparr>signers := [payerKey payer]\<rparr> in
     bindM (call (signAndSendTransaction env transaction) (SignAndSendTransaction transaction))
       (\<lambda>txSignature.
     bindM (setSignature (Some txSignature)) (\<lambda>_.
     bindM (emit (ConsoleLog ''Transaction signature:'' [PString txSignature])) (\<lambda>_.
     bindM (call (confirmTransaction env txSignature) (ConfirmTransaction txSignature)) (\<lambda>_.
     emit (Alert ''Token successfully compressed.'')))))))))))))))))))))"

text \<open>
  The \<open>catch\<close> block (lines 198 to 212). \<open>signature\<close> is the constant of the render the
  handler closed over, so it is read from \<open>s\<close>; \<open>setSignature\<close> in the \<open>try\<close>
  block does not change it. A string is truthy when it is not empty.
\<close>

definition compressTokens_catch :: "'w env \<Rightarrow> component \<Rightarrow> error \<Rightarrow> ('w, unit) M" where
  "compressTokens_catch env s error =
     bindM (emit (ConsoleError ''Compression failed:'' [PError error])) (\<lambda>_.
     bindM (try_catch
              (case signature s of
                 None \<Rightarrow> returnM ()
               | Some sg \<Rightarrow>
                   if sg \<noteq> [] then
                     bindM (call (getTransaction env sg) (GetTransaction sg)) (\<lambda>logs.
                     emit (ConsoleError ''Transaction logs:'' [PResponse logs]))
                   else returnM ())
              (\<lambda>logError. emit (ConsoleError ''Failed to fetch transaction logs:'' [PError logError]))) (\<lambda>_.
     emit (Alert ''Compression failed. Check the console for details.'')))"

text \<open>\<open>compressTokens\<close> (lines 99 to 213).\<close>

definition compressTokens :: "'w env \<Rightarrow> ('w, unit) M" where
  "compressTokens env r =
     (let s = react r;
          selectedTokens = filter (\<lambda>token. selected (objects r token)) (tokens s)
      in
      if length selectedTokens \<noteq> 1 then
        bindM (emit (Alert ''Please select exactly one token to compress.'')) (\<lambda>_. returnM ()) r
      else
        let selectedToken = selectedTokens ! 0 in
        try_catch (compressTokens_try env s selectedToken) (compressTokens_catch env s) r)"

text \<open>The events a computation adds to the trace of the run it starts from.\<close>

definition emitted :: "('w, 'a) M \<Rightarrow> 'w run \<Rightarrow> event list" where
  "emitted m r = drop (length (trace r)) (trace (snd (m r)))"

section \<open>States the component can reach\<close>

text \<open>
  The component starts with no wallet key, an empty token list and no signature
  (lines 25 to 27); afterwards its state changes only through its handlers, while the
  outside world moves on by itself between two of them.
\<close>

inductive reachable :: "'w env \<Rightarrow> 'w run \<Rightarrow> bool" for env :: "'w env" where
  mounted: "react r = \<lparr>walletKey = None, tokens = [], signature = None\<rparr> \<Longrightarrow> reachable env r"
| outside: "reachable env r \<Longrightarrow> reachable env (r\<lparr>world := w\<rparr>)"
| connectWallet: "reachable env r \<Longrightarrow> reachable env (snd (connectWallet env r))"
| disconnectWallet: "reachable env r \<Longrightarrow> reachable env (snd (disconnectWallet env r))"
| handleCheckboxChange: "reachable env r \<Longrightarrow> reachable env (snd (handleCheckboxChange i r))"
| compressTokens: "reachable env r \<Longrightarrow> reachable env (snd (compressTokens env r))"
| onConnect: "reachable env r \<Longrightarrow> reachable env (snd (onConnect env pk r))"
| onDisconnect: "reachable env r \<Longrightarrow> reachable env (snd (onDisconnect r))"
| onAccountChange: "reachable env r \<Longrightarrow> reachable env (snd (onAccountChange env k r))"

section \<open>Reading a trace\<close>

text \<open>The calls that go to the wallet provider or to the RPC endpoint.\<close>

fun network_call :: "event \<Rightarrow> bool" where
  "network_call (ProviderConnect _) = True"
| "network_call (ProviderDisconnect _) = True"
| "network_call (SignAndSendTransaction _ _) = True"
| "network_call (GetParsedTokenAccountsByOwner _ _ _) = True"
| "network_call (GetAccountInfo _ _) = True"
| "network_call (GetLatestBlockhash _) = True"
| "network_call (ConfirmTransaction _ _) = True"
| "network_call (GetTransaction _ _) = True"
| "network_call _ = False"

fun is_create_ix :: "TransactionInstruction \<Rightarrow> bool" where
  "is_create_ix (CreateAssociatedTokenAccountIx _ _ _ _ _) = True"
| "is_create_ix (CompressIx _) = False"

fun is_compress_ix :: "TransactionInstruction \<Rightarrow> bool" where
  "is_compress_ix (CompressIx _) = True"
| "is_compress_ix (CreateAssociatedTokenAccountIx _ _ _ _ _) = False"

text \<open>A creation transaction carries a creation instruction, a compression transaction a
  compression instruction.\<close>

definition is_creation :: "Transaction \<Rightarrow> bool" where
  "is_creation tx = list_ex is_create_ix (instructions tx)"

definition is_compression :: "Transaction \<Rightarrow> bool" where
  "is_compression tx = list_ex is_compress_ix (instructions tx)"

fun compression_submitted :: "event \<Rightarrow> bool" where
  "compression_submitted (SignAndSendTransaction tx _) = is_compression tx"
| "compression_submitted _ = False"

text \<open>
  \<open>confirmed_after tx es\<close>: in \<open>es\<close> the provider accepted exactly the transaction
  \<open>tx\<close> and, later, the network confirmed the signature it returned.
\<close>

fun confirmed_after :: "Transaction \<Rightarrow> event list \<Rightarrow> bool" where
  "confirmed_after tx [] = False"
| "confirmed_after tx (SignAndSendTransaction tx' (Inr sg) # es) =
     ((tx' = tx \<and> ConfirmTransaction sg (Inr ()) \<in> set es) \<or> confirmed_after tx es)"
| "confirmed_after tx (_ # es) = confirmed_after tx es"

text \<open>
  \<open>creation_done es\<close>: in \<open>es\<close> a creation transaction was signed, then submitted with
  that signer, then confirmed.
\<close>

fun creation_done :: "event list \<Rightarrow> bool" where
  "creation_done [] = False"
| "creation_done (TransactionSign tx kp (Inr u) # es) =
     ((is_creation tx \<and> confirmed_after (tx\<lparr>signers := [payerKey kp]\<rparr>) es) \<or> creation_done es)"
| "creation_done (_ # es) = creation_done es"

section \<open>Reasoning about runs\<close>

text \<open>
  \<open>wp m Q E r\<close>: started in \<open>r\<close>, the computation \<open>m\<close> ends in a run that satisfies
  \<open>Q\<close> when it returns and \<open>E\<close> when it throws.
\<close>

definition wp ::
  "('w, 'a) M \<Rightarrow> ('a \<Rightarrow> 'w run \<Rightarrow> bool) \<Rightarrow> (error \<Rightarrow> 'w run \<Rightarrow> bool) \<Rightarrow> 'w run \<Rightarrow> bool" where
  "wp m Q E r = (case m r of (Inl e, r') \<Rightarrow> E e r' | (Inr a, r') \<Rightarrow> Q a r')"

text \<open>
  The callback \<open>toInputAccount\<close> has no effect on the run, so mapping it over the
  accounts is this function of the accounts.
\<close>

fun descriptors :: "'w env \<Rightarrow> PublicKey \<Rightarrow> ParsedTokenAccount list \<Rightarrow> error + InputAccount list" where
  "descriptors env pk [] = Inr []"
| "descriptors env pk (a # as) =
     (case newBN env (uiAmountString (tokenAmount (info a))) of
        Inl e \<Rightarrow> Inl e
      | Inr amt \<Rightarrow>
          (case newPublicKey env (toBase58 (pubkey a)) of
             Inl e \<Rightarrow> Inl e
           | Inr addr \<Rightarrow>
               (case descriptors env pk as of
                  Inl e \<Rightarrow> Inl e
                | Inr ds \<Rightarrow>
                    Inr (\<lparr>compressedAccount =
                           \<lparr>hash = mint (info a), caAmount = amt, caOwner = pk,
                            lamports = 1, address = Some addr, data = []\<rparr>,
                         parsed = info a\<rparr> # ds))))"

text \<open>The amount of a descriptor is what \<open>new BN\<close> makes of the account's \<open>uiAmountString\<close>.\<close>

definition amount_of_ui :: "'w env \<Rightarrow> InputAccount \<Rightarrow> ParsedTokenAccount \<Rightarrow> bool" where
  "amount_of_ui env d a =
     (newBN env (uiAmountString (tokenAmount (info a))) = Inr (caAmount (compressedAccount d)))"

section \<open>A small world to run the handlers in\<close>

text \<open>
  One wallet with two token accounts; every call succeeds, the associated account does
  not exist yet, and the compression library selects the first candidate.
\<close>

definition demo_accounts :: "ParsedTokenAccount list" where
  "demo_accounts =
     [\<lparr>pubkey = PublicKey ''AccountA'',
       info = \<lparr>mint = ''MintA'',
               tokenAmount = \<lparr>rawAmount = ''250000000'', decimals = 6, uiAmountString = ''250''\<rparr>\<rparr>\<rparr>,
      \<lparr>pubkey = PublicKey ''AccountB'',
       info = \<lparr>mint = ''MintB'',
               tokenAmount = \<lparr>rawAmount = ''5000000'', decimals = 6, uiAmountString = ''5''\<rparr>\<rparr>\<rparr>]"

definition demo_env :: "unit env" where
  "demo_env =
     \<lparr>window_solana = (\<lambda>w. Some \<lparr>isPhantom = True\<rparr>),
      connect = (\<lambda>w. (Inr (PublicKey ''Owner''), w)),
      disconnect = (\<lambda>w. (Inr (), w)),
      signAndSendTransaction = (\<lambda>tx w. (Inr ''sig'', w)),
      getParsedTokenAccountsByOwner = (\<lambda>pk f w. (Inr demo_accounts, w)),
      getAccountInfo = (\<lambda>pk w. (Inr None, w)),
      getLatestBlockhash = (\<lambda>w. (Inr ''hash'', w)),
      confirmTransaction = (\<lambda>sg w. (Inr (), w)),
      getTransaction = (\<lambda>sg w. (Inr None, w)),
      generate = (\<lambda>w. (Inr (Keypair (PublicKey ''Payer'')), w)),
      sign = (\<lambda>tx kp w. (Inr (), w)),
      selectMinCompressedTokenAccountsForTransfer = (\<lambda>accs amt w. (Inr (take 1 accs), w)),
      compress = (\<lambda>p w. (Inr (), w)),
      newPublicKey = (\<lambda>s. Inr (PublicKey s)),
      newBN = (\<lambda>s. if s = ''250'' then Inr 250 else if s = ''5'' then Inr 5
                     else Inl (Error ''Invalid character'')),
      getAssociatedTokenAddress = (\<lambda>m owner allow p1 p2. Inr (PublicKey ''Associated''))\<rparr>"

definition demo_token :: "string \<Rightarrow> string \<Rightarrow> bool \<Rightarrow> TokenInfo" where
  "demo_token m a sel = \<lparr>mintAddress = m, amount = a, selected = sel\<rparr>"

text \<open>The component right after mounting.\<close>

definition demo_mounted :: "unit run" where
  "demo_mounted =
     \<lparr>world = (), objects = (\<lambda>_. demo_token [] [] False), fresh = 0,
      react = \<lparr>walletKey = None, tokens = [], signature = None\<rparr>, trace = []\<rparr>"

text \<open>Connected, both tokens listed, the first one ticked, the second one as given.\<close>

definition demo_listed :: "bool \<Rightarrow> unit run" where
  "demo_listed second =
     \<lparr>world = (),
      objects = (\<lambda>_. demo_token [] [] False)
        (0 := demo_token ''MintA'' ''250'' True, 1 := demo_token ''MintB'' ''5'' second),
      fresh = 2,
      react = \<lparr>walletKey = Some (PublicKey ''Owner''), tokens = [0, 1], signature = None\<rparr>,
      trace = []\<rparr>"

text \<open>Variants of that world in which one thing goes wrong.\<close>

definition demo_env_no_wallet :: "unit env" where
  "demo_env_no_wallet = demo_env\<lparr>window_solana := (\<lambda>w. None)\<rparr>"

definition demo_env_other_wallet :: "unit env" where
  "demo_env_other_wallet = demo_env\<lparr>window_solana := (\<lambda>w. Some \<lparr>isPhantom = False\<rparr>)\<rparr>"

definition demo_env_disconnect_fails :: "unit env" where
  "demo_env_disconnect_fails =
     demo_env\<lparr>disconnect := (\<lambda>w. (Inl (Error ''User rejected the request''), w))\<rparr>"

definition demo_env_rpc_down :: "unit env" where
  "demo_env_rpc_down =
     demo_env\<lparr>getParsedTokenAccountsByOwner :=
                (\<lambda>pk f w. (Inl (Error ''429 Too Many Requests''), w))\<rparr>"

definition demo_env_account_exists :: "unit env" where
  "demo_env_account_exists =
     demo_env\<lparr>getAccountInfo := (\<lambda>pk w. (Inr (Some (AccountInfo 1)), w))\<rparr>"

definition demo_env_confirm_fails :: "unit env" where
  "demo_env_confirm_fails =
     demo_env_account_exists\<lparr>confirmTransaction :=
       (\<lambda>sg w. (Inl (Error ''Transaction was not confirmed''), w))\<rparr>"

definition demo_env_nothing_selected :: "unit env" where
  "demo_env_nothing_selected =
     demo_env\<lparr>selectMinCompressedTokenAccountsForTransfer := (\<lambda>accs amt w. (Inr [], w))\<rparr>"

text \<open>The values that show up in the traces of these worlds.\<close>

definition demo_payer :: Keypair where
  "demo_payer = Keypair (PublicKey ''Payer'')"

definition demo_candidates :: "InputAccount list" where
  "demo_candidates =
     [\<lparr>compressedAccount =
         \<lparr>hash = ''MintA'', caAmount = 250, caOwner = PublicKey ''Owner'', lamports = 1,
          address = Some (PublicKey ''AccountA''), data = []\<rparr>,
       parsed = \<lparr>mint = ''MintA'',
                 tokenAmount = \<lparr>rawAmount = ''250000000'', decimals = 6, uiAmountString = ''250''\<rparr>\<rparr>\<rparr>,
      \<lparr>compressedAccount =
         \<lparr>hash = ''MintB'', caAmount = 5, caOwner = PublicKey ''Owner'', lamports = 1,
          address = Some (PublicKey ''AccountB''), data = []\<rparr>,
       parsed = \<lparr>mint = ''MintB'',
                 tokenAmount = \<lparr>rawAmount = ''5000000'', decimals = 6, uiAmountString = ''5''\<rparr>\<rparr>\<rparr>]"

definition demo_compress_params :: CompressParams where
  "demo_compress_params =
     \<lparr>cpPayer = PublicKey ''Payer'', cpMint = PublicKey ''MintA'', cpOwner = PublicKey ''Owner'',
      cpAmount = 100000000, cpToAddress = PublicKey ''Owner'', cpSource = PublicKey ''AccountA''\<rparr>"

text \<open>Both transactions as they are when handed to \<open>sign\<close>: stamped, not yet signed.\<close>

definition demo_compress_tx :: Transaction where
  "demo_compress_tx =
     \<lparr>instructions = [CompressIx demo_compress_params], recentBlockhash = Some ''hash'',
      feePayer = Some (PublicKey ''Payer''), signers = []\<rparr>"

definition demo_create_tx :: Transaction where
  "demo_create_tx =
     \<lparr>instructions =
        [CreateAssociatedTokenAccountIx (PublicKey ''Payer'') (PublicKey ''Owner'')
           (PublicKey ''MintA'') ASSOCIATED_TOKEN_PROGRAM_ID TOKEN_PROGRAM_ID],
      recentBlockhash = Some ''hash'', feePayer = Some (PublicKey ''Payer''), signers = []\<rparr>"

section \<open>Rules for runs\<close>

lemma call_alt:
  "call f ev r =
     (fst (f (world r)), r\<lparr>world := snd (f (world r)), trace := trace r @ [ev (fst (f (world r)))]\<rparr>)"
  by (simp add: call_def split: prod.splits)

lemmas run_defs = returnM_def throwM_def bindM_def try_catch_def emit_def call_alt lib_def gets_def
  not_awaited_def setWalletKey_def setTokens_def setSignature_def

lemma wp_returnM: "wp (returnM a) Q E r = Q a r"
  by (simp add: wp_def returnM_def)

lemma wp_throwM: "wp (throwM e) Q E r = E e r"
  by (simp add: wp_def throwM_def)

lemma wp_bindM: "wp (bindM m f) Q E r = wp m (\<lambda>a. wp (f a) Q E) E r"
  by (simp add: wp_def bindM_def split: prod.splits sum.splits)

lemma wp_try_catch: "wp (try_catch b h) Q E r = wp b Q (\<lambda>e. wp (h e) Q E) r"
  by (simp add: wp_def try_catch_def split: prod.splits sum.splits)

lemma wp_emit: "wp (emit ev) Q E r = Q () (r\<lparr>trace := trace r @ [ev]\<rparr>)"
  by (simp add: wp_def emit_def)

lemma wp_call:
  "wp (call f ev) Q E r =
     ((\<forall>e. fst (f (world r)) = Inl e \<longrightarrow>
          E e (r\<lparr>world := snd (f (world r)), trace := trace r @ [ev (Inl e)]\<rparr>)) \<and>
      (\<forall>a. fst (f (world r)) = Inr a \<longrightarrow>
          Q a (r\<lparr>world := snd (f (world r)), trace := trace r @ [ev (Inr a)]\<rparr>)))"
  by (auto simp add: wp_def call_def split: prod.splits sum.splits)

lemma wp_lib: "wp (lib res) Q E r = ((\<forall>e. res = Inl e \<longrightarrow> E e r) \<and> (\<forall>a. res = Inr a \<longrightarrow> Q a r))"
  by (auto simp add: wp_def lib_def split: sum.splits)

lemma wp_gets: "wp (gets f) Q E r = Q (f r) r"
  by (simp add: wp_def gets_def)

lemma wp_not_awaited: "wp (not_awaited m) Q E r = wp m (\<lambda>_. Q ()) (\<lambda>_. Q ()) r"
  by (simp add: wp_def not_awaited_def split: prod.splits sum.splits)

lemma wp_setSignature:
  "wp (setSignature x) Q E r = Q () (r\<lparr>react := (react r)\<lparr>signature := x\<rparr>\<rparr>)"
  by (simp add: wp_def setSignature_def)

lemma wp_setWalletKey:
  "wp (setWalletKey x) Q E r = Q () (r\<lparr>react := (react r)\<lparr>walletKey := x\<rparr>\<rparr>)"
  by (simp add: wp_def setWalletKey_def)

lemma wp_setTokens: "wp (setTokens x) Q E r = Q () (r\<lparr>react := (react r)\<lparr>tokens := x\<rparr>\<rparr>)"
  by (simp add: wp_def setTokens_def)

lemma wp_if:
  "wp (if b then m1 else m2) Q E r = ((b \<longrightarrow> wp m1 Q E r) \<and> (\<not> b \<longrightarrow> wp m2 Q E r))"
  by simp

lemma wp_case_option:
  "wp (case x of None \<Rightarrow> m1 | Some y \<Rightarrow> m2 y) Q E r =
     ((x = None \<longrightarrow> wp m1 Q E r) \<and> (\<forall>y. x = Some y \<longrightarrow> wp (m2 y) Q E r))"
  by (simp split: option.splits)

lemma wp_getProvider:
  "wp (getProvider env) Q E r =
     ((\<forall>p. window_solana env (world r) = Some p \<and> isPhantom p \<longrightarrow> Q (Some p) r) \<and>
      (window_solana env (world r) = None \<or>
       (\<exists>p. window_solana env (world r) = Some p \<and> \<not> isPhantom p) \<longrightarrow>
         Q None (r\<lparr>trace := trace r @ [WindowOpen ''https://phantom.app/'' ''_blank'']\<rparr>)))"
  by (auto simp add: wp_def getProvider_def run_defs split: option.splits)

text \<open>The continuations of \<open>wp\<close> are only rewritten once they are reached.\<close>

lemma wp_cong: "m = m' \<Longrightarrow> r = r' \<Longrightarrow> wp m Q E r = wp m' Q E r'"
  by simp

lemma wp_returns:
  "wp m (\<lambda>_. P) (\<lambda>_ _. False) r \<Longrightarrow> (\<exists>a. fst (m r) = Inr a) \<and> P (snd (m r))"
  by (auto simp: wp_def split: prod.splits sum.splits)

lemma mapM_new_object:
  "\<exists>r'. mapM (\<lambda>a. new_object (f a)) xs r = (Inr [fresh r ..< fresh r + length xs], r')
     \<and> fresh r' = fresh r + length xs \<and> world r' = world r \<and> react r' = react r
     \<and> trace r' = trace r \<and> (\<forall>a < fresh r. objects r' a = objects r a)
     \<and> map (objects r') [fresh r ..< fresh r + length xs] = map f xs"
proof (induction xs arbitrary: r)
  case Nil
  then show ?case by (simp add: returnM_def)
next
  case (Cons x xs)
  let ?r1 = "r\<lparr>objects := (objects r)(fresh r := f x), fresh := Suc (fresh r)\<rparr>"
  from Cons.IH[of ?r1] obtain r' where
    m: "mapM (\<lambda>a. new_object (f a)) xs ?r1 =
          (Inr [Suc (fresh r) ..< Suc (fresh r) + length xs], r')"
    and f': "fresh r' = Suc (fresh r) + length xs" and w: "world r' = world r"
    and re: "react r' = react r" and t: "trace r' = trace r"
    and old: "\<forall>a < Suc (fresh r). objects r' a = ((objects r)(fresh r := f x)) a"
    and new: "map (objects r') [Suc (fresh r) ..< Suc (fresh r) + length xs] = map f xs"
    by auto
  have "mapM (\<lambda>a. new_object (f a)) (x # xs) r =
          (Inr (fresh r # [Suc (fresh r) ..< Suc (fresh r) + length xs]), r')"
    using m by (simp add: bindM_def returnM_def new_object_def)
  moreover have "fresh r # [Suc (fresh r) ..< Suc (fresh r) + length xs] =
                 [fresh r ..< fresh r + length (x # xs)]"
    by (simp add: upt_rec)
  moreover have "map (objects r') [fresh r ..< fresh r + length (x # xs)] = map f (x # xs)"
    using new old by (simp add: upt_rec)
  ultimately show ?case using f' w re t old by auto
qed

section \<open>The token lister\<close>

lemma fetchTokens_failure:
  assumes "fst (getParsedTokenAccountsByOwner env pk (ProgramIdFilter TOKEN_PROGRAM_ID) (world r)) = Inl e"
  shows "fetchTokens env pk r =
    (Inr (),
     r\<lparr>world := snd (getParsedTokenAccountsByOwner env pk (ProgramIdFilter TOKEN_PROGRAM_ID) (world r)),
       trace := trace r @
         [GetParsedTokenAccountsByOwner pk (ProgramIdFilter TOKEN_PROGRAM_ID) (Inl e),
          ConsoleLog ''Error fetching tokens:'' [PError e]]\<rparr>)"
  using assms by (simp add: fetchTokens_def run_defs)

lemma fetchTokens_success:
  assumes "fst (getParsedTokenAccountsByOwner env pk (ProgramIdFilter TOKEN_PROGRAM_ID) (world r)) = Inr accs"
  shows "\<exists>r'. fetchTokens env pk r = (Inr (), r') \<and>
           tokens (react r') = [fresh r ..< fresh r + length accs] \<and>
           walletKey (react r') = walletKey (react r) \<and>
           signature (react r') = signature (react r) \<and>
           map (objects r') (tokens (react r')) =
             map (\<lambda>a. \<lparr>mintAddress = mint (info a),
                         amount = uiAmountString (tokenAmount (info a)),
                         selected = False\<rparr>) accs"
proof -
  let ?f = "\<lambda>a. \<lparr>mintAddress = mint (info a), amount = uiAmountString (tokenAmount (info a)),
                   selected = False\<rparr>"
  let ?r1 = "r\<lparr>world := snd (getParsedTokenAccountsByOwner env pk (ProgramIdFilter TOKEN_PROGRAM_ID) (world r)),
               trace := trace r @
                 [GetParsedTokenAccountsByOwner pk (ProgramIdFilter TOKEN_PROGRAM_ID) (Inr accs)]\<rparr>"
  from mapM_new_object[of ?f accs ?r1] obtain r' where
    m: "mapM (\<lambda>a. new_object (?f a)) accs ?r1 = (Inr [fresh r ..< fresh r + length accs], r')"
    and re: "react r' = react r"
    and new: "map (objects r') [fresh r ..< fresh r + length accs] = map ?f accs"
    by auto
  have "fetchTokens env pk r =
          (Inr (), r'\<lparr>react := (react r')\<lparr>tokens := [fresh r ..< fresh r + length accs]\<rparr>\<rparr>)"
    using assms m by (simp add: fetchTokens_def run_defs Let_def)
  then show ?thesis using new re by simp
qed

text \<open>
  Claim C4. When the RPC call returns a list of \<open>N\<close> parsed token accounts, \<open>fetchTokens\<close>
  returns normally and the token list it sets has exactly \<open>N\<close> records, in the order of
  the RPC result, each with that account's mint and \<open>uiAmountString\<close> and with
  \<open>selected = False\<close>. The new list is a function of the RPC result alone and is made
  of objects allocated by this call: nothing of the previous list remains.
\<close>

theorem fetchTokens_maps_accounts:
  assumes "fst (getParsedTokenAccountsByOwner env pk (ProgramIdFilter TOKEN_PROGRAM_ID) (world r)) = Inr accs"
  shows "fst (fetchTokens env pk r) = Inr () \<and>
         token_list (snd (fetchTokens env pk r)) =
           map (\<lambda>a. \<lparr>mintAddress = mint (info a),
                       amount = uiAmountString (tokenAmount (info a)),
                       selected = False\<rparr>) accs \<and>
         length (token_list (snd (fetchTokens env pk r))) = length accs \<and>
         tokens (react (snd (fetchTokens env pk r))) = [fresh r ..< fresh r + length accs]"
proof -
  from fetchTokens_success[OF assms] obtain r' where
    run: "fetchTokens env pk r = (Inr (), r')"
    and refs: "tokens (react r') = [fresh r ..< fresh r + length accs]"
    and objs: "map (objects r') (tokens (react r')) =
                 map (\<lambda>a. \<lparr>mintAddress = mint (info a),
                             amount = uiAmountString (tokenAmount (info a)),
                             selected = False\<rparr>) accs"
    by blast
  from objs have "token_list r' =
      map (\<lambda>a. \<lparr>mintAddress = mint (info a), amount = uiAmountString (tokenAmount (info a)),
                  selected = False\<rparr>) accs"
    by (simp add: token_list_def)
  moreover from this have "length (token_list r') = length accs" by simp
  ultimately show ?thesis using run refs by simp
qed

theorem fetchTokens_maps_accounts_witness:
  "fst (getParsedTokenAccountsByOwner demo_env (PublicKey ''Owner'')
          (ProgramIdFilter TOKEN_PROGRAM_ID) (world (demo_listed True))) = Inr demo_accounts \<and>
   token_list (demo_listed True) =
     [demo_token ''MintA'' ''250'' True, demo_token ''MintB'' ''5'' True] \<and>
   token_list (snd (fetchTokens demo_env (PublicKey ''Owner'') (demo_listed True))) =
     [demo_token ''MintA'' ''250'' False, demo_token ''MintB'' ''5'' False]"
proof -
  have h: "fst (getParsedTokenAccountsByOwner demo_env (PublicKey ''Owner'')
             (ProgramIdFilter TOKEN_PROGRAM_ID) (world (demo_listed True))) = Inr demo_accounts"
    by (simp add: demo_env_def)
  have "token_list (demo_listed True) =
          [demo_token ''MintA'' ''250'' True, demo_token ''MintB'' ''5'' True]"
    by (simp add: token_list_def demo_listed_def)
  with h fetchTokens_maps_accounts[OF h] show ?thesis
    by (simp add: demo_accounts_def demo_token_def)
qed

text \<open>
  Claim C8. When the RPC query of \<open>fetchTokens\<close> throws, the error is caught: the call
  returns normally, the component state and the token list are what they were before,
  and all that happened is the failed query and one console message.
\<close>

theorem fetchTokens_failure_keeps_list:
  assumes "fst (getParsedTokenAccountsByOwner env pk (ProgramIdFilter TOKEN_PROGRAM_ID) (world r)) = Inl e"
  shows "fst (fetchTokens env pk r) = Inr () \<and>
         react (snd (fetchTokens env pk r)) = react r \<and>
         token_list (snd (fetchTokens env pk r)) = token_list r \<and>
         emitted (fetchTokens env pk) r =
           [GetParsedTokenAccountsByOwner pk (ProgramIdFilter TOKEN_PROGRAM_ID) (Inl e),
            ConsoleLog ''Error fetching tokens:'' [PError e]]"
  by (simp add: fetchTokens_failure[OF assms] token_list_def emitted_def)

theorem fetchTokens_failure_keeps_list_witness:
  "fst (getParsedTokenAccountsByOwner demo_env_rpc_down (PublicKey ''Owner'')
          (ProgramIdFilter TOKEN_PROGRAM_ID) (world (demo_listed False))) =
     Inl (Error ''429 Too Many Requests'') \<and>
   fst (fetchTokens demo_env_rpc_down (PublicKey ''Owner'') (demo_listed False)) = Inr () \<and>
   token_list (snd (fetchTokens demo_env_rpc_down (PublicKey ''Owner'') (demo_listed False))) =
     [demo_token ''MintA'' ''250'' True, demo_token ''MintB'' ''5'' False]"
proof -
  have h: "fst (getParsedTokenAccountsByOwner demo_env_rpc_down (PublicKey ''Owner'')
             (ProgramIdFilter TOKEN_PROGRAM_ID) (world (demo_listed False))) =
           Inl (Error ''429 Too Many Requests'')"
    by (simp add: demo_env_rpc_down_def)
  have "token_list (demo_listed False) =
          [demo_token ''MintA'' ''250'' True, demo_token ''MintB'' ''5'' False]"
    by (simp add: token_list_def demo_listed_def)
  with h fetchTokens_failure_keeps_list[OF h] show ?thesis by simp
qed

section \<open>The wallet connector\<close>

text \<open>
  Claim C9. When \<open>window.solana\<close> is absent, or is there but does not identify itself
  as Phantom, \<open>getProvider\<close> opens the install page in a new tab and returns nothing;
  \<open>connectWallet\<close> then does nothing else: the component state is left as it was (so an
  unset wallet key and token list stay unset) and the provider is never asked to connect.
\<close>

theorem connectWallet_without_provider:
  assumes "window_solana env (world r) = None \<or>
           (\<exists>p. window_solana env (world r) = Some p \<and> \<not> isPhantom p)"
  shows "getProvider env r =
           (Inr None, r\<lparr>trace := trace r @ [WindowOpen ''https://phantom.app/'' ''_blank'']\<rparr>) \<and>
         connectWallet env r =
           (Inr (), r\<lparr>trace := trace r @ [WindowOpen ''https://phantom.app/'' ''_blank'']\<rparr>) \<and>
         react (snd (connectWallet env r)) = react r \<and>
         (\<forall>res. ProviderConnect res \<notin> set (emitted (connectWallet env) r))"
  using assms by (auto simp: getProvider_def connectWallet_def run_defs emitted_def)

theorem connectWallet_without_provider_witness:
  "window_solana demo_env_no_wallet (world demo_mounted) = None \<and>
   (\<exists>p. window_solana demo_env_other_wallet (world demo_mounted) = Some p \<and> \<not> isPhantom p) \<and>
   walletKey (react (snd (connectWallet demo_env_no_wallet demo_mounted))) = None \<and>
   tokens (react (snd (connectWallet demo_env_no_wallet demo_mounted))) = [] \<and>
   trace (snd (connectWallet demo_env_no_wallet demo_mounted)) =
     [WindowOpen ''https://phantom.app/'' ''_blank''] \<and>
   walletKey (react (snd (connectWallet demo_env_other_wallet demo_mounted))) = None \<and>
   tokens (react (snd (connectWallet demo_env_other_wallet demo_mounted))) = [] \<and>
   trace (snd (connectWallet demo_env_other_wallet demo_mounted)) =
     [WindowOpen ''https://phantom.app/'' ''_blank'']"
proof -
  have h1: "window_solana demo_env_no_wallet (world demo_mounted) = None \<or>
            (\<exists>p. window_solana demo_env_no_wallet (world demo_mounted) = Some p \<and> \<not> isPhantom p)"
    by (simp add: demo_env_no_wallet_def demo_env_def)
  have h2: "window_solana demo_env_other_wallet (world demo_mounted) = None \<or>
            (\<exists>p. window_solana demo_env_other_wallet (world demo_mounted) = Some p \<and> \<not> isPhantom p)"
    by (simp add: demo_env_other_wallet_def demo_env_def)
  from h1 h2 connectWallet_without_provider[OF h1] connectWallet_without_provider[OF h2]
  show ?thesis
    by (simp add: demo_mounted_def demo_env_no_wallet_def demo_env_other_wallet_def demo_env_def)
qed

lemma disconnectWallet_cases:
  "disconnectWallet env r =
     (case window_solana env (world r) of
        None \<Rightarrow> (Inr (), r\<lparr>trace := trace r @ [WindowOpen ''https://phantom.app/'' ''_blank'']\<rparr>)
      | Some p \<Rightarrow>
          if isPhantom p then
            (case fst (disconnect env (world r)) of
               Inl e \<Rightarrow>
                 (Inr (), r\<lparr>world := snd (disconnect env (world r)),
                            trace := trace r @
                              [ProviderDisconnect (Inl e),
                               ConsoleLog ''Disconnection error:'' [PError e]]\<rparr>)
             | Inr u \<Rightarrow>
                 (Inr (), r\<lparr>world := snd (disconnect env (world r)),
                            react := (react r)\<lparr>walletKey := None, tokens := []\<rparr>,
                            trace := trace r @
                              [ProviderDisconnect (Inr ()), ConsoleLog ''Disconnected'' []]\<rparr>))
          else (Inr (), r\<lparr>trace := trace r @ [WindowOpen ''https://phantom.app/'' ''_blank'']\<rparr>))"
  by (simp add: disconnectWallet_def getProvider_def run_defs split: option.splits sum.splits)

text \<open>
  Claim C6, as stated: every invocation of \<open>disconnectWallet\<close> ends with the wallet key
  cleared and the token list empty, also when no provider is detected and when the
  provider's disconnect call fails. Both fail: with no provider, and with a provider
  whose \<open>disconnect\<close> rejects, a connected component with two listed tokens keeps its
  wallet key and its token list.
\<close>

theorem disconnectWallet_unconditional_counterexample:
  "walletKey (react (snd (disconnectWallet demo_env_no_wallet (demo_listed False)))) =
     Some (PublicKey ''Owner'') \<and>
   tokens (react (snd (disconnectWallet demo_env_no_wallet (demo_listed False)))) = [0, 1] \<and>
   walletKey (react (snd (disconnectWallet demo_env_disconnect_fails (demo_listed False)))) =
     Some (PublicKey ''Owner'') \<and>
   tokens (react (snd (disconnectWallet demo_env_disconnect_fails (demo_listed False)))) = [0, 1]"
  by (simp add: disconnectWallet_cases demo_env_no_wallet_def demo_env_disconnect_fails_def
        demo_env_def demo_listed_def)

text \<open>
  Claim C6, amended. \<open>disconnectWallet\<close> never throws. When a Phantom provider is detected
  and its \<open>disconnect\<close> call succeeds, the invocation ends with the wallet key cleared
  and the token list empty (the signature is kept). Otherwise, that is when no provider
  is detected or the \<open>disconnect\<close> call fails, wallet key, token list and signature are
  left as they were.
\<close>

theorem disconnectWallet_clears_on_success:
  "fst (disconnectWallet env r) = Inr () \<and>
   ((\<exists>p. window_solana env (world r) = Some p \<and> isPhantom p) \<and>
    fst (disconnect env (world r)) = Inr () \<longrightarrow>
      walletKey (react (snd (disconnectWallet env r))) = None \<and>
      tokens (react (snd (disconnectWallet env r))) = [] \<and>
      token_list (snd (disconnectWallet env r)) = [] \<and>
      signature (react (snd (disconnectWallet env r))) = signature (react r)) \<and>
   (\<not> ((\<exists>p. window_solana env (world r) = Some p \<and> isPhantom p) \<and>
        fst (disconnect env (world r)) = Inr ()) \<longrightarrow>
      react (snd (disconnectWallet env r)) = react r \<and>
      token_list (snd (disconnectWallet env r)) = token_list r)"
  by (auto simp: disconnectWallet_cases token_list_def split: option.splits sum.splits)

theorem disconnectWallet_clears_on_success_witness:
  "(\<exists>p. window_solana demo_env (world (demo_listed False)) = Some p \<and> isPhantom p) \<and>
   fst (disconnect demo_env (world (demo_listed False))) = Inr () \<and>
   walletKey (react (snd (disconnectWallet demo_env (demo_listed False)))) = None \<and>
   tokens (react (snd (disconnectWallet demo_env (demo_listed False)))) = [] \<and>
   \<not> ((\<exists>p. window_solana demo_env_no_wallet (world (demo_listed False)) = Some p \<and> isPhantom p) \<and>
       fst (disconnect demo_env_no_wallet (world (demo_listed False))) = Inr ()) \<and>
   react (snd (disconnectWallet demo_env_no_wallet (demo_listed False))) = react (demo_listed False)"
proof -
  have h1: "(\<exists>p. window_solana demo_env (world (demo_listed False)) = Some p \<and> isPhantom p) \<and>
            fst (disconnect demo_env (world (demo_listed False))) = Inr ()"
    by (simp add: demo_env_def)
  have h2: "\<not> ((\<exists>p. window_solana demo_env_no_wallet (world (demo_listed False)) = Some p \<and> isPhantom p) \<and>
       fst (disconnect demo_env_no_wallet (world (demo_listed False))) = Inr ())"
    by (simp add: demo_env_no_wallet_def demo_env_def)
  from h1 h2 disconnectWallet_clears_on_success[of demo_env "demo_listed False"]
    disconnectWallet_clears_on_success[of demo_env_no_wallet "demo_listed False"]
  show ?thesis by blast
qed

section \<open>The compression orchestrator\<close>

text \<open>
  Claim C1. When the number of selected records of the token list is not exactly one,
  \<open>compressTokens\<close> shows the alert \<open>Please select exactly one token to compress.\<close> and
  returns: the alert is the only event (so no call goes to the provider or the RPC
  endpoint), and the world, the object store and the component state (wallet key, token
  list, signature) are unchanged.
\<close>

theorem compressTokens_requires_one_selected:
  assumes "length (filter selected (token_list r)) \<noteq> 1"
  shows "compressTokens env r =
           (Inr (), r\<lparr>trace := trace r @ [Alert ''Please select exactly one token to compress.'']\<rparr>) \<and>
         emitted (compressTokens env) r = [Alert ''Please select exactly one token to compress.''] \<and>
         (\<forall>e \<in> set (emitted (compressTokens env) r). \<not> network_call e) \<and>
         react (snd (compressTokens env r)) = react r \<and>
         token_list (snd (compressTokens env r)) = token_list r"
proof -
  have "length (filter (\<lambda>token. selected (objects r token)) (tokens (react r))) =
        length (filter selected (token_list r))"
    by (simp add: token_list_def filter_map comp_def)
  with assms have "compressTokens env r =
      (Inr (), r\<lparr>trace := trace r @ [Alert ''Please select exactly one token to compress.'']\<rparr>)"
    by (simp add: compressTokens_def run_defs)
  then show ?thesis by (simp add: emitted_def token_list_def)
qed

theorem compressTokens_requires_one_selected_witness:
  "length (filter selected (token_list (demo_listed True))) \<noteq> 1 \<and>
   length (filter selected (token_list demo_mounted)) \<noteq> 1 \<and>
   compressTokens demo_env (demo_listed True) =
     (Inr (), (demo_listed True)\<lparr>trace := [Alert ''Please select exactly one token to compress.'']\<rparr>) \<and>
   compressTokens demo_env demo_mounted =
     (Inr (), demo_mounted\<lparr>trace := [Alert ''Please select exactly one token to compress.'']\<rparr>)"
proof -
  have h2: "length (filter selected (token_list (demo_listed True))) \<noteq> 1"
    by (simp add: token_list_def demo_listed_def demo_token_def)
  have h0: "length (filter selected (token_list demo_mounted)) \<noteq> 1"
    by (simp add: token_list_def demo_mounted_def)
  have "trace (demo_listed True) = []" "trace demo_mounted = []"
    by (simp_all add: demo_listed_def demo_mounted_def)
  with h0 h2 compressTokens_requires_one_selected[OF h2, of demo_env]
    compressTokens_requires_one_selected[OF h0, of demo_env]
  show ?thesis by simp
qed


text \<open>
  The \<open>try\<close> block maps \<open>toInputAccount\<close> over the accounts; the callback leaves the
  run alone.
\<close>
lemma mapM_toInputAccount: "mapM (toInputAccount env pk) accs r = (descriptors env pk accs, r)"
  by (induction accs) (auto simp: toInputAccount_def run_defs split: sum.splits)

lemma wp_mapM_toInputAccount:
  "wp (mapM (toInputAccount env pk) accs) Q E r =
     ((\<forall>e. descriptors env pk accs = Inl e \<longrightarrow> E e r) \<and>
      (\<forall>ds. descriptors env pk accs = Inr ds \<longrightarrow> Q ds r))"
  by (auto simp add: wp_def mapM_toInputAccount split: sum.splits)

lemma descriptors_amounts:
  "descriptors env pk tas = Inr ds \<Longrightarrow> list_all2 (amount_of_ui env) ds tas"
  by (induction tas arbitrary: ds) (auto simp: amount_of_ui_def split: sum.splits)

lemmas wp_rules = wp_returnM wp_throwM wp_bindM wp_try_catch wp_emit wp_call wp_lib wp_gets
  wp_not_awaited wp_setSignature wp_setWalletKey wp_setTokens wp_if wp_case_option wp_getProvider
  wp_mapM_toInputAccount

text \<open>The \<open>catch\<close> block, once and for all: its four ways through.\<close>

lemma wp_compressTokens_catch:
  "wp (compressTokens_catch env s e) Q E r =
     ((signature s = None \<longrightarrow>
         Q () (r\<lparr>trace := trace r @ [ConsoleError ''Compression failed:'' [PError e],
                   Alert ''Compression failed. Check the console for details.'']\<rparr>)) \<and>
      (\<forall>sg. signature s = Some sg \<longrightarrow>
         (sg \<noteq> [] \<longrightarrow>
            (\<forall>e'. fst (getTransaction env sg (world r)) = Inl e' \<longrightarrow>
               Q () (r\<lparr>world := snd (getTransaction env sg (world r)),
                       trace := trace r @ [ConsoleError ''Compression failed:'' [PError e],
                         GetTransaction sg (Inl e'),
                         ConsoleError ''Failed to fetch transaction logs:'' [PError e'],
                         Alert ''Compression failed. Check the console for details.'']\<rparr>)) \<and>
            (\<forall>logs. fst (getTransaction env sg (world r)) = Inr logs \<longrightarrow>
               Q () (r\<lparr>world := snd (getTransaction env sg (world r)),
                       trace := trace r @ [ConsoleError ''Compression failed:'' [PError e],
                         GetTransaction sg (Inr logs),
                         ConsoleError ''Transaction logs:'' [PResponse logs],
                         Alert ''Compression failed. Check the console for details.'']\<rparr>))) \<and>
         (sg = [] \<longrightarrow>
            Q () (r\<lparr>trace := trace r @ [ConsoleError ''Compression failed:'' [PError e],
                      Alert ''Compression failed. Check the console for details.'']\<rparr>))))"
  by (simp add: compressTokens_catch_def wp_rules cong: wp_cong)

lemma wp_compressTokens:
  "wp (compressTokens env) Q E r =
     ((length (filter (\<lambda>token. selected (objects r token)) (tokens (react r))) \<noteq> 1 \<longrightarrow>
         Q () (r\<lparr>trace := trace r @ [Alert ''Please select exactly one token to compress.'']\<rparr>)) \<and>
      (length (filter (\<lambda>token. selected (objects r token)) (tokens (react r))) = 1 \<longrightarrow>
         wp (try_catch
               (compressTokens_try env (react r)
                  (filter (\<lambda>token. selected (objects r token)) (tokens (react r)) ! 0))
               (compressTokens_catch env (react r))) Q E r))"
  by (simp add: wp_def compressTokens_def run_defs Let_def)

lemmas compress_wp = wp_compressTokens wp_rules wp_compressTokens_catch compressTokens_try_def
  createAssociatedAccount_def Let_def

text \<open>
  Four facts about every run of \<open>compressTokens\<close>, each by running the handler
  symbolically along all of its paths: what it leaves alone, the order of creation and
  compression, what follows an empty selection, and the amounts it passes on.
\<close>

lemma compressTokens_frame_wp:
  "wp (compressTokens env)
     (\<lambda>_ r'. tokens (react r') = tokens (react r) \<and> walletKey (react r') = walletKey (react r) \<and>
             objects r' = objects r \<and> fresh r' = fresh r \<and>
             take (length (trace r)) (trace r') = trace r \<and>
             (\<forall>sg res. GetTransaction sg res \<in> set (drop (length (trace r)) (trace r')) \<longrightarrow>
                signature (react r) = Some sg))
     (\<lambda>_ r'. False) r"
  by (simp add: compress_wp cong: wp_cong)

lemma compressTokens_order_wp:
  "wp (compressTokens env)
     (\<lambda>_ r'.
        ((\<exists>ata. GetAccountInfo ata (Inr None) \<in> set (drop (length (trace r)) (trace r'))) \<and>
         (\<exists>e \<in> set (drop (length (trace r)) (trace r')). compression_submitted e) \<longrightarrow>
           creation_done (takeWhile (\<lambda>e. \<not> compression_submitted e)
                            (drop (length (trace r)) (trace r')))) \<and>
        ((\<exists>ata ai. GetAccountInfo ata (Inr (Some ai)) \<in> set (drop (length (trace r)) (trace r'))) \<longrightarrow>
           (\<forall>tx res. SignAndSendTransaction tx res \<in> set (drop (length (trace r)) (trace r')) \<longrightarrow>
              \<not> is_creation tx)))
     (\<lambda>_ r'. False) r"
  by (simp add: compress_wp is_creation_def is_compression_def cong: wp_cong)

lemma compressTokens_empty_selection_wp:
  "wp (compressTokens env)
     (\<lambda>_ r'.
        (\<exists>accs amt. SelectMinCompressedTokenAccountsForTransfer accs amt (Inr [])
                      \<in> set (drop (length (trace r)) (trace r'))) \<longrightarrow>
        (\<forall>p res. Compress p res \<notin> set (drop (length (trace r)) (trace r'))) \<and>
        (\<forall>tx res. SignAndSendTransaction tx res \<in> set (drop (length (trace r)) (trace r')) \<longrightarrow>
           \<not> is_compression tx) \<and>
        ConsoleError ''Compression failed:'' [PError (Error ''No input accounts found for compression.'')]
          \<in> set (drop (length (trace r)) (trace r')) \<and>
        last (drop (length (trace r)) (trace r')) =
          Alert ''Compression failed. Check the console for details.'')
     (\<lambda>_ r'. False) r"
  by (simp add: compress_wp is_creation_def is_compression_def cong: wp_cong)

lemma compressTokens_amounts_wp:
  "wp (compressTokens env)
     (\<lambda>_ r'.
        (\<forall>accs amt res.
            SelectMinCompressedTokenAccountsForTransfer accs amt res
              \<in> set (drop (length (trace r)) (trace r')) \<longrightarrow>
            amt = 100000000 \<and>
            (\<forall>pk f tas. GetParsedTokenAccountsByOwner pk f (Inr tas)
                           \<in> set (drop (length (trace r)) (trace r')) \<longrightarrow>
               list_all2 (amount_of_ui env) accs tas)) \<and>
        (\<forall>p res. Compress p res \<in> set (drop (length (trace r)) (trace r')) \<longrightarrow>
            cpAmount p = 100000000))
     (\<lambda>_ r'. False) r"
  by (simp add: compress_wp descriptors_amounts cong: wp_cong)

lemma compressTokens_frame:
  "fst (compressTokens env r) = Inr () \<and>
   tokens (react (snd (compressTokens env r))) = tokens (react r) \<and>
   walletKey (react (snd (compressTokens env r))) = walletKey (react r) \<and>
   objects (snd (compressTokens env r)) = objects r \<and>
   trace (snd (compressTokens env r)) = trace r @ emitted (compressTokens env) r"
proof -
  from wp_returns[OF compressTokens_frame_wp[of env r]]
  have "fst (compressTokens env r) = Inr ()"
    and "tokens (react (snd (compressTokens env r))) = tokens (react r)"
    and "walletKey (react (snd (compressTokens env r))) = walletKey (react r)"
    and "objects (snd (compressTokens env r)) = objects r"
    and t: "take (length (trace r)) (trace (snd (compressTokens env r))) = trace r"
    by auto
  moreover have "trace (snd (compressTokens env r)) = trace r @ emitted (compressTokens env) r"
    using append_take_drop_id[of "length (trace r)" "trace (snd (compressTokens env r))"] t
    unfolding emitted_def by simp
  ultimately show ?thesis by simp
qed

lemma compressTokens_log_lookup_reads_closure:
  "GetTransaction sg res \<in> set (emitted (compressTokens env) r) \<Longrightarrow> signature (react r) = Some sg"
  using wp_returns[OF compressTokens_frame_wp[of env r]] unfolding emitted_def by blast

text \<open>Facts about the trace predicates.\<close>

lemma confirmed_after_append: "confirmed_after tx xs \<Longrightarrow> confirmed_after tx (xs @ ys)"
  by (induction tx xs rule: confirmed_after.induct) auto

lemma creation_done_append: "creation_done xs \<Longrightarrow> creation_done (xs @ ys)"
  by (induction xs rule: creation_done.induct) (auto simp: confirmed_after_append)

lemma confirmed_after_subseq:
  "confirmed_after tx es \<Longrightarrow>
     \<exists>sg. subseq [SignAndSendTransaction tx (Inr sg), ConfirmTransaction sg (Inr ())] es"
proof (induction tx es rule: confirmed_after.induct)
  case (2 tx tx' sg es)
  show ?case
  proof (cases "tx' = tx \<and> ConfirmTransaction sg (Inr ()) \<in> set es")
    case True
    then have "subseq [ConfirmTransaction sg (Inr ())] es" by (simp add: subseq_singleton_left)
    with True show ?thesis by auto
  next
    case False
    with 2 obtain sg' where
      "subseq [SignAndSendTransaction tx (Inr sg'), ConfirmTransaction sg' (Inr ())] es" by auto
    then show ?thesis by (auto intro: subseq_Cons')
  qed
qed (auto intro: list_emb_Cons)

lemma creation_done_subseq:
  "creation_done es \<Longrightarrow>
     \<exists>ctx kp sg. is_creation ctx \<and>
        subseq [TransactionSign ctx kp (Inr ()),
                SignAndSendTransaction (ctx\<lparr>signers := [payerKey kp]\<rparr>) (Inr sg),
                ConfirmTransaction sg (Inr ())] es"
proof (induction es rule: creation_done.induct)
  case (2 tx kp u es)
  show ?case
  proof (cases "is_creation tx \<and> confirmed_after (tx\<lparr>signers := [payerKey kp]\<rparr>) es")
    case True
    then obtain sg where
      "subseq [SignAndSendTransaction (tx\<lparr>signers := [payerKey kp]\<rparr>) (Inr sg),
               ConfirmTransaction sg (Inr ())] es"
      using confirmed_after_subseq by blast
    then have "subseq [TransactionSign tx kp (Inr ()),
                SignAndSendTransaction (tx\<lparr>signers := [payerKey kp]\<rparr>) (Inr sg),
                ConfirmTransaction sg (Inr ())] (TransactionSign tx kp (Inr u) # es)"
      by simp
    with True show ?thesis by blast
  next
    case False
    with 2 obtain ctx kp' sg where "is_creation ctx"
      "subseq [TransactionSign ctx kp' (Inr ()),
                SignAndSendTransaction (ctx\<lparr>signers := [payerKey kp']\<rparr>) (Inr sg),
                ConfirmTransaction sg (Inr ())] es"
      by auto
    then show ?thesis by (blast intro: subseq_Cons')
  qed
qed (auto intro: list_emb_Cons)

lemma takeWhile_before_split:
  assumes "es = pre @ x # post" "P x"
  shows "\<exists>rest. pre = takeWhile (\<lambda>e. \<not> P e) es @ rest"
proof (cases "\<forall>e \<in> set pre. \<not> P e")
  case True
  then have "takeWhile (\<lambda>e. \<not> P e) es = pre"
    using assms by (simp add: takeWhile_append2)
  then show ?thesis by simp
next
  case False
  then obtain e where "e \<in> set pre" "\<not> \<not> P e" by auto
  then have "takeWhile (\<lambda>e. \<not> P e) es = takeWhile (\<lambda>e. \<not> P e) pre"
    using assms by (simp add: takeWhile_append1)
  moreover have "pre = takeWhile (\<lambda>e. \<not> P e) pre @ dropWhile (\<lambda>e. \<not> P e) pre"
    by simp
  ultimately show ?thesis by metis
qed

text \<open>The handler run in the small world and its variants.\<close>

lemmas demo_defs = demo_env_def demo_accounts_def demo_token_def demo_listed_def demo_payer_def
  demo_candidates_def demo_compress_params_def demo_compress_tx_def demo_create_tx_def
  demo_env_account_exists_def demo_env_confirm_fails_def demo_env_nothing_selected_def

lemmas eval_defs = compressTokens_def compressTokens_try_def compressTokens_catch_def
  createAssociatedAccount_def toInputAccount_def getProvider_def emitted_def run_defs Let_def

lemma demo_trace_success:
  "emitted (compressTokens demo_env) (demo_listed False) =
     [KeypairGenerate (Inr demo_payer),
      GetAccountInfo (PublicKey ''Associated'') (Inr None),
      GetLatestBlockhash (Inr ''hash''),
      TransactionSign demo_create_tx demo_payer (Inr ()),
      SignAndSendTransaction (demo_create_tx\<lparr>signers := [PublicKey ''Payer'']\<rparr>) (Inr ''sig''),
      ConfirmTransaction ''sig'' (Inr ()),
      ConsoleLog ''Created associated token account:'' [PString ''Associated''],
      GetParsedTokenAccountsByOwner (PublicKey ''Owner'') (MintFilter (PublicKey ''MintA''))
        (Inr demo_accounts),
      SelectMinCompressedTokenAccountsForTransfer demo_candidates 100000000
        (Inr (take 1 demo_candidates)),
      Compress demo_compress_params (Inr ()),
      GetLatestBlockhash (Inr ''hash''),
      TransactionSign demo_compress_tx demo_payer (Inr ()),
      SignAndSendTransaction (demo_compress_tx\<lparr>signers := [PublicKey ''Payer'']\<rparr>) (Inr ''sig''),
      ConsoleLog ''Transaction signature:'' [PString ''sig''],
      ConfirmTransaction ''sig'' (Inr ()),
      Alert ''Token successfully compressed.'']"
  by (simp add: eval_defs demo_defs)

lemma demo_trace_account_exists:
  "emitted (compressTokens demo_env_account_exists) (demo_listed False) =
     [KeypairGenerate (Inr demo_payer),
      GetAccountInfo (PublicKey ''Associated'') (Inr (Some (AccountInfo 1))),
      GetParsedTokenAccountsByOwner (PublicKey ''Owner'') (MintFilter (PublicKey ''MintA''))
        (Inr demo_accounts),
      SelectMinCompressedTokenAccountsForTransfer demo_candidates 100000000
        (Inr (take 1 demo_candidates)),
      Compress demo_compress_params (Inr ()),
      GetLatestBlockhash (Inr ''hash''),
      TransactionSign demo_compress_tx demo_payer (Inr ()),
      SignAndSendTransaction (demo_compress_tx\<lparr>signers := [PublicKey ''Payer'']\<rparr>) (Inr ''sig''),
      ConsoleLog ''Transaction signature:'' [PString ''sig''],
      ConfirmTransaction ''sig'' (Inr ()),
      Alert ''Token successfully compressed.'']"
  by (simp add: eval_defs demo_defs)

lemma demo_trace_confirm_fails:
  "emitted (compressTokens demo_env_confirm_fails) (demo_listed False) =
     [KeypairGenerate (Inr demo_payer),
      GetAccountInfo (PublicKey ''Associated'') (Inr (Some (AccountInfo 1))),
      GetParsedTokenAccountsByOwner (PublicKey ''Owner'') (MintFilter (PublicKey ''MintA''))
        (Inr demo_accounts),
      SelectMinCompressedTokenAccountsForTransfer demo_candidates 100000000
        (Inr (take 1 demo_candidates)),
      Compress demo_compress_params (Inr ()),
      GetLatestBlockhash (Inr ''hash''),
      TransactionSign demo_compress_tx demo_payer (Inr ()),
      SignAndSendTransaction (demo_compress_tx\<lparr>signers := [PublicKey ''Payer'']\<rparr>) (Inr ''sig''),
      ConsoleLog ''Transaction signature:'' [PString ''sig''],
      ConfirmTransaction ''sig'' (Inl (Error ''Transaction was not confirmed'')),
      ConsoleError ''Compression failed:'' [PError (Error ''Transaction was not confirmed'')],
      Alert ''Compression failed. Check the console for details.'']"
  by (simp add: eval_defs demo_defs)

lemma demo_state_confirm_fails:
  "react (snd (compressTokens demo_env_confirm_fails (demo_listed False))) =
     \<lparr>walletKey = Some (PublicKey ''Owner''), tokens = [0, 1], signature = Some ''sig''\<rparr>"
  by (simp add: eval_defs demo_defs)

lemma demo_trace_nothing_selected:
  "emitted (compressTokens demo_env_nothing_selected) (demo_listed False) =
     [KeypairGenerate (Inr demo_payer),
      GetAccountInfo (PublicKey ''Associated'') (Inr None),
      GetLatestBlockhash (Inr ''hash''),
      TransactionSign demo_create_tx demo_payer (Inr ()),
      SignAndSendTransaction (demo_create_tx\<lparr>signers := [PublicKey ''Payer'']\<rparr>) (Inr ''sig''),
      ConfirmTransaction ''sig'' (Inr ()),
      ConsoleLog ''Created associated token account:'' [PString ''Associated''],
      GetParsedTokenAccountsByOwner (PublicKey ''Owner'') (MintFilter (PublicKey ''MintA''))
        (Inr demo_accounts),
      SelectMinCompressedTokenAccountsForTransfer demo_candidates 100000000 (Inr []),
      ConsoleError ''Compression failed:'' [PError (Error ''No input accounts found for compression.'')],
      Alert ''Compression failed. Check the console for details.'']"
  by (simp add: eval_defs demo_defs)

text \<open>
  Claim C2. In every run of \<open>compressTokens\<close> in which \<open>getAccountInfo\<close> returned
  \<open>null\<close> for the associated token account, whenever a compression transaction is
  submitted, the events before that submission contain, in this order, the signing of a
  creation transaction by the ephemeral payer, the successful submission of that signed
  transaction through the provider, and the successful confirmation of the signature the
  provider returned. In every run in which \<open>getAccountInfo\<close> returned an account, no
  transaction submitted carries a creation instruction.
\<close>

theorem compressTokens_creation_before_compression:
  "((\<exists>ata. GetAccountInfo ata (Inr None) \<in> set (emitted (compressTokens env) r)) \<longrightarrow>
      (\<forall>pre tx res post.
          emitted (compressTokens env) r = pre @ SignAndSendTransaction tx res # post \<and>
          is_compression tx \<longrightarrow>
          (\<exists>ctx kp sg. is_creation ctx \<and>
             subseq [TransactionSign ctx kp (Inr ()),
                     SignAndSendTransaction (ctx\<lparr>signers := [payerKey kp]\<rparr>) (Inr sg),
                     ConfirmTransaction sg (Inr ())] pre))) \<and>
   ((\<exists>ata ai. GetAccountInfo ata (Inr (Some ai)) \<in> set (emitted (compressTokens env) r)) \<longrightarrow>
      (\<forall>tx res. SignAndSendTransaction tx res \<in> set (emitted (compressTokens env) r) \<longrightarrow>
          \<not> is_creation tx))"
proof -
  let ?es = "emitted (compressTokens env) r"
  from wp_returns[OF compressTokens_order_wp[of env r]]
  have a: "(\<exists>ata. GetAccountInfo ata (Inr None) \<in> set ?es) \<and>
           (\<exists>e \<in> set ?es. compression_submitted e) \<longrightarrow>
             creation_done (takeWhile (\<lambda>e. \<not> compression_submitted e) ?es)"
    and b: "(\<exists>ata ai. GetAccountInfo ata (Inr (Some ai)) \<in> set ?es) \<longrightarrow>
             (\<forall>tx res. SignAndSendTransaction tx res \<in> set ?es \<longrightarrow> \<not> is_creation tx)"
    unfolding emitted_def by blast+
  have "\<exists>ctx kp sg. is_creation ctx \<and>
             subseq [TransactionSign ctx kp (Inr ()),
                     SignAndSendTransaction (ctx\<lparr>signers := [payerKey kp]\<rparr>) (Inr sg),
                     ConfirmTransaction sg (Inr ())] pre"
    if missing: "\<exists>ata. GetAccountInfo ata (Inr None) \<in> set ?es"
      and split: "?es = pre @ SignAndSendTransaction tx res # post" and c: "is_compression tx"
    for pre tx res post
  proof -
    have sub: "compression_submitted (SignAndSendTransaction tx res)" using c by simp
    have "SignAndSendTransaction tx res \<in> set ?es" by (subst split) simp
    with sub have "\<exists>e \<in> set ?es. compression_submitted e" by blast
    with a missing have finished: "creation_done (takeWhile (\<lambda>e. \<not> compression_submitted e) ?es)"
      by blast
    from takeWhile_before_split[OF split, of compression_submitted] sub
    obtain rest where "pre = takeWhile (\<lambda>e. \<not> compression_submitted e) ?es @ rest" by blast
    with finished have "creation_done pre" by (metis creation_done_append)
    then show ?thesis by (rule creation_done_subseq)
  qed
  with b show ?thesis by blast
qed

theorem compressTokens_creation_before_compression_witness:
  "GetAccountInfo (PublicKey ''Associated'') (Inr None)
     \<in> set (emitted (compressTokens demo_env) (demo_listed False)) \<and>
   emitted (compressTokens demo_env) (demo_listed False) =
     take 12 (emitted (compressTokens demo_env) (demo_listed False)) @
     SignAndSendTransaction (demo_compress_tx\<lparr>signers := [PublicKey ''Payer'']\<rparr>) (Inr ''sig'') #
     drop 13 (emitted (compressTokens demo_env) (demo_listed False)) \<and>
   is_compression (demo_compress_tx\<lparr>signers := [PublicKey ''Payer'']\<rparr>) \<and>
   (\<exists>ctx kp sg. is_creation ctx \<and>
      subseq [TransactionSign ctx kp (Inr ()),
              SignAndSendTransaction (ctx\<lparr>signers := [payerKey kp]\<rparr>) (Inr sg),
              ConfirmTransaction sg (Inr ())]
        (take 12 (emitted (compressTokens demo_env) (demo_listed False)))) \<and>
   GetAccountInfo (PublicKey ''Associated'') (Inr (Some (AccountInfo 1)))
     \<in> set (emitted (compressTokens demo_env_account_exists) (demo_listed False)) \<and>
   SignAndSendTransaction (demo_compress_tx\<lparr>signers := [PublicKey ''Payer'']\<rparr>) (Inr ''sig'')
     \<in> set (emitted (compressTokens demo_env_account_exists) (demo_listed False)) \<and>
   \<not> is_creation (demo_compress_tx\<lparr>signers := [PublicKey ''Payer'']\<rparr>)"
proof -
  let ?es = "emitted (compressTokens demo_env) (demo_listed False)"
  let ?es' = "emitted (compressTokens demo_env_account_exists) (demo_listed False)"
  let ?tx = "demo_compress_tx\<lparr>signers := [PublicKey ''Payer'']\<rparr>"
  have missing: "GetAccountInfo (PublicKey ''Associated'') (Inr None) \<in> set ?es"
    by (simp add: demo_trace_success)
  have split: "?es = take 12 ?es @ SignAndSendTransaction ?tx (Inr ''sig'') # drop 13 ?es"
    by (simp add: demo_trace_success)
  have c: "is_compression ?tx" by (simp add: is_compression_def demo_compress_tx_def)
  have exists: "GetAccountInfo (PublicKey ''Associated'') (Inr (Some (AccountInfo 1))) \<in> set ?es'"
    by (simp add: demo_trace_account_exists)
  have sent: "SignAndSendTransaction ?tx (Inr ''sig'') \<in> set ?es'"
    by (simp add: demo_trace_account_exists)
  from compressTokens_creation_before_compression[of demo_env "demo_listed False"] missing split c
  have "\<exists>ctx kp sg. is_creation ctx \<and>
      subseq [TransactionSign ctx kp (Inr ()),
              SignAndSendTransaction (ctx\<lparr>signers := [payerKey kp]\<rparr>) (Inr sg),
              ConfirmTransaction sg (Inr ())] (take 12 ?es)"
    by blast
  moreover from compressTokens_creation_before_compression[of demo_env_account_exists "demo_listed False"] exists sent
  have "\<not> is_creation ?tx" by blast
  ultimately show ?thesis using missing split c exists sent by blast
qed

text \<open>
  Claim C3. In every run of \<open>compressTokens\<close> in which the compression library's
  selection returned an empty list, no compression instruction is built and no
  compression transaction is submitted; the \<open>catch\<close> block receives the error
  \<open>No input accounts found for compression.\<close>, and the last thing the run does is show
  the alert \<open>Compression failed. Check the console for details.\<close>
\<close>

theorem compressTokens_empty_selection_aborts:
  assumes "SelectMinCompressedTokenAccountsForTransfer accs amt (Inr [])
             \<in> set (emitted (compressTokens env) r)"
  shows "(\<forall>p res. Compress p res \<notin> set (emitted (compressTokens env) r)) \<and>
         (\<forall>tx res. SignAndSendTransaction tx res \<in> set (emitted (compressTokens env) r) \<longrightarrow>
            \<not> is_compression tx) \<and>
         ConsoleError ''Compression failed:'' [PError (Error ''No input accounts found for compression.'')]
           \<in> set (emitted (compressTokens env) r) \<and>
         last (emitted (compressTokens env) r) =
           Alert ''Compression failed. Check the console for details.''"
  using wp_returns[OF compressTokens_empty_selection_wp[of env r]] assms
  unfolding emitted_def by blast

theorem compressTokens_empty_selection_aborts_witness:
  "SelectMinCompressedTokenAccountsForTransfer demo_candidates 100000000 (Inr [])
     \<in> set (emitted (compressTokens demo_env_nothing_selected) (demo_listed False)) \<and>
   Compress demo_compress_params (Inr ())
     \<notin> set (emitted (compressTokens demo_env_nothing_selected) (demo_listed False)) \<and>
   last (emitted (compressTokens demo_env_nothing_selected) (demo_listed False)) =
     Alert ''Compression failed. Check the console for details.''"
proof -
  have h: "SelectMinCompressedTokenAccountsForTransfer demo_candidates 100000000 (Inr [])
     \<in> set (emitted (compressTokens demo_env_nothing_selected) (demo_listed False))"
    by (simp add: demo_trace_nothing_selected)
  from compressTokens_empty_selection_aborts[OF h] h show ?thesis by blast
qed

text \<open>
  Claim C10. In every run of \<open>compressTokens\<close>, whatever the token list and the
  balances, the target amount passed to the library's account selection is \<open>10^8\<close>, and
  so is the amount of every compress instruction built; the candidates passed to the
  selection correspond one to one, in order, to the accounts the RPC call returned, and
  the amount of each candidate is what \<open>new BN\<close> makes of that account's
  \<open>uiAmountString\<close> (\<open>rawAmount\<close> is never read).
\<close>

theorem compressTokens_fixed_target_amount:
  "(\<forall>accs amt res.
       SelectMinCompressedTokenAccountsForTransfer accs amt res
         \<in> set (emitted (compressTokens env) r) \<longrightarrow>
       amt = 100000000 \<and>
       (\<forall>pk f tas. GetParsedTokenAccountsByOwner pk f (Inr tas)
                      \<in> set (emitted (compressTokens env) r) \<longrightarrow>
          list_all2 (amount_of_ui env) accs tas)) \<and>
   (\<forall>p res. Compress p res \<in> set (emitted (compressTokens env) r) \<longrightarrow> cpAmount p = 100000000)"
  using wp_returns[OF compressTokens_amounts_wp[of env r]] unfolding emitted_def by blast

theorem compressTokens_fixed_target_amount_witness:
  "SelectMinCompressedTokenAccountsForTransfer demo_candidates 100000000 (Inr (take 1 demo_candidates))
     \<in> set (emitted (compressTokens demo_env) (demo_listed False)) \<and>
   GetParsedTokenAccountsByOwner (PublicKey ''Owner'') (MintFilter (PublicKey ''MintA'')) (Inr demo_accounts)
     \<in> set (emitted (compressTokens demo_env) (demo_listed False)) \<and>
   Compress demo_compress_params (Inr ()) \<in> set (emitted (compressTokens demo_env) (demo_listed False)) \<and>
   list_all2 (amount_of_ui demo_env) demo_candidates demo_accounts \<and>
   map (\<lambda>d. caAmount (compressedAccount d)) demo_candidates = [250, 5] \<and>
   map (\<lambda>a. uiAmountString (tokenAmount (info a))) demo_accounts = [''250'', ''5''] \<and>
   map (\<lambda>a. rawAmount (tokenAmount (info a))) demo_accounts = [''250000000'', ''5000000''] \<and>
   cpAmount demo_compress_params = 100000000"
proof -
  let ?es = "emitted (compressTokens demo_env) (demo_listed False)"
  have s: "SelectMinCompressedTokenAccountsForTransfer demo_candidates 100000000
             (Inr (take 1 demo_candidates)) \<in> set ?es"
    and g: "GetParsedTokenAccountsByOwner (PublicKey ''Owner'') (MintFilter (PublicKey ''MintA''))
             (Inr demo_accounts) \<in> set ?es"
    and c: "Compress demo_compress_params (Inr ()) \<in> set ?es"
    by (simp_all add: demo_trace_success)
  from compressTokens_fixed_target_amount[of demo_env "demo_listed False"] s g c
  have "list_all2 (amount_of_ui demo_env) demo_candidates demo_accounts"
    and "cpAmount demo_compress_params = 100000000"
    by blast+
  moreover have "map (\<lambda>d. caAmount (compressedAccount d)) demo_candidates = [250, 5]"
    "map (\<lambda>a. uiAmountString (tokenAmount (info a))) demo_accounts = [''250'', ''5'']"
    "map (\<lambda>a. rawAmount (tokenAmount (info a))) demo_accounts = [''250000000'', ''5000000'']"
    by (simp_all add: demo_candidates_def demo_accounts_def)
  ultimately show ?thesis using s g c by blast
qed

text \<open>
  Claim C7 says that a run which fails after the compression transaction's signature was
  captured fetches the transaction logs for that signature before the failure alert. The
  \<open>catch\<close> block reads \<open>signature\<close> from the render the handler closed over, which
  \<open>setSignature\<close> in the same run does not change. Here the component has no earlier
  signature, the provider returns the signature \<open>sig\<close>, and the confirmation fails: the
  signature is stored for the next render, and the run ends with the console message and
  the alert, without any \<open>getTransaction\<close> call.
\<close>

theorem compressTokens_log_lookup_uses_stale_signature:
  "signature (react (demo_listed False)) = None \<and>
   SignAndSendTransaction (demo_compress_tx\<lparr>signers := [PublicKey ''Payer'']\<rparr>) (Inr ''sig'')
     \<in> set (emitted (compressTokens demo_env_confirm_fails) (demo_listed False)) \<and>
   signature (react (snd (compressTokens demo_env_confirm_fails (demo_listed False)))) = Some ''sig'' \<and>
   drop 9 (emitted (compressTokens demo_env_confirm_fails) (demo_listed False)) =
     [ConfirmTransaction ''sig'' (Inl (Error ''Transaction was not confirmed'')),
      ConsoleError ''Compression failed:'' [PError (Error ''Transaction was not confirmed'')],
      Alert ''Compression failed. Check the console for details.''] \<and>
   (\<forall>sg res. GetTransaction sg res
      \<notin> set (emitted (compressTokens demo_env_confirm_fails) (demo_listed False)))"
  by (simp add: demo_trace_confirm_fails demo_state_confirm_fails) (simp add: demo_listed_def)

section \<open>The checkbox handler\<close>

text \<open>
  The token list of every reachable state holds pairwise distinct objects: \<open>fetchTokens\<close>
  allocates one object per account, and no handler puts a reference into the list twice.
\<close>

lemma fetchTokens_distinct:
  "distinct (tokens (react (snd (fetchTokens env pk r)))) \<or>
   tokens (react (snd (fetchTokens env pk r))) = tokens (react r)"
proof (cases "fst (getParsedTokenAccountsByOwner env pk (ProgramIdFilter TOKEN_PROGRAM_ID) (world r))")
  case (Inl e)
  then show ?thesis by (simp add: fetchTokens_failure[OF Inl])
next
  case (Inr accs)
  from fetchTokens_success[OF Inr] show ?thesis by auto
qed

lemma wp_fetchTokens_distinct:
  "distinct (tokens (react r)) \<Longrightarrow>
   wp (fetchTokens env pk) (\<lambda>_ r'. distinct (tokens (react r'))) (\<lambda>_ r'. distinct (tokens (react r'))) r"
  using fetchTokens_distinct[of env pk r] by (auto simp: wp_def split: prod.splits sum.splits)

lemma wp_snd: "wp m (\<lambda>_. P) (\<lambda>_. P) r \<Longrightarrow> P (snd (m r))"
  by (auto simp: wp_def split: prod.splits sum.splits)

lemma connectWallet_distinct:
  "distinct (tokens (react r)) \<Longrightarrow> distinct (tokens (react (snd (connectWallet env r))))"
  by (rule wp_snd) (simp add: connectWallet_def wp_rules wp_fetchTokens_distinct cong: wp_cong)

lemma onConnect_distinct:
  "distinct (tokens (react r)) \<Longrightarrow> distinct (tokens (react (snd (onConnect env pk r))))"
  by (rule wp_snd) (simp add: onConnect_def wp_rules wp_fetchTokens_distinct cong: wp_cong)

lemma onAccountChange_distinct:
  "distinct (tokens (react r)) \<Longrightarrow> distinct (tokens (react (snd (onAccountChange env k r))))"
  by (rule wp_snd) (simp add: onAccountChange_def wp_rules wp_fetchTokens_distinct cong: wp_cong)

lemma onDisconnect_distinct: "distinct (tokens (react (snd (onDisconnect r))))"
  by (simp add: onDisconnect_def run_defs)

lemma disconnectWallet_distinct:
  "distinct (tokens (react r)) \<Longrightarrow> distinct (tokens (react (snd (disconnectWallet env r))))"
  by (simp add: disconnectWallet_cases split: option.splits sum.splits)

lemma handleCheckboxChange_tokens:
  "tokens (react (snd (handleCheckboxChange i r))) = tokens (react r)"
  by (simp add: handleCheckboxChange_def run_defs Let_def)

lemma compressTokens_tokens:
  "tokens (react (snd (compressTokens env r))) = tokens (react r)"
  by (simp add: compressTokens_frame)

lemma reachable_distinct: "reachable env r \<Longrightarrow> distinct (tokens (react r))"
proof (induction rule: reachable.induct)
  case (mounted r)
  then show ?case by simp
qed (simp_all add: connectWallet_distinct disconnectWallet_distinct handleCheckboxChange_tokens
       compressTokens_tokens onConnect_distinct onDisconnect_distinct onAccountChange_distinct)

text \<open>
  Claim C5. For every token list the component can hold and every valid index \<open>i\<close>,
  \<open>handleCheckboxChange i\<close> returns normally and sets a list of the same length in
  which record \<open>i\<close> has its \<open>selected\<close> flag negated and its \<open>mintAddress\<close> and
  \<open>amount\<close> unchanged, and every record at another index is unchanged in all fields.
  The handler writes the object at index \<open>i\<close> in place; the records of a reachable list
  are pairwise distinct objects, so no other index sees the write.
\<close>

theorem handleCheckboxChange_flips_one_record:
  assumes "reachable env r" and "i < length (token_list r)"
  shows "fst (handleCheckboxChange i r) = Inr () \<and>
         length (token_list (snd (handleCheckboxChange i r))) = length (token_list r) \<and>
         selected (token_list (snd (handleCheckboxChange i r)) ! i) = (\<not> selected (token_list r ! i)) \<and>
         mintAddress (token_list (snd (handleCheckboxChange i r)) ! i) = mintAddress (token_list r ! i) \<and>
         amount (token_list (snd (handleCheckboxChange i r)) ! i) = amount (token_list r ! i) \<and>
         (\<forall>j. j < length (token_list r) \<and> j \<noteq> i \<longrightarrow>
              token_list (snd (handleCheckboxChange i r)) ! j = token_list r ! j)"
proof -
  have d: "distinct (tokens (react r))" using assms(1) by (rule reachable_distinct)
  have i: "i < length (tokens (react r))" using assms(2) by (simp add: token_list_def)
  have "tokens (react r) ! j \<noteq> tokens (react r) ! i"
    if "j < length (tokens (react r))" "j \<noteq> i" for j
    using that d i by (simp add: nth_eq_iff_index_eq)
  with i show ?thesis
    by (simp add: handleCheckboxChange_def run_defs Let_def token_list_def)
qed

theorem handleCheckboxChange_flips_one_record_witness:
  "reachable demo_env (snd (connectWallet demo_env demo_mounted)) \<and>
   token_list (snd (connectWallet demo_env demo_mounted)) =
     [demo_token ''MintA'' ''250'' False, demo_token ''MintB'' ''5'' False] \<and>
   selected (token_list (snd (handleCheckboxChange 0 (snd (connectWallet demo_env demo_mounted)))) ! 0) \<and>
   token_list (snd (handleCheckboxChange 0 (snd (connectWallet demo_env demo_mounted)))) ! 1 =
     demo_token ''MintB'' ''5'' False"
proof -
  let ?r = "snd (connectWallet demo_env demo_mounted)"
  have re: "reachable demo_env ?r"
    by (rule reachable.connectWallet, rule reachable.mounted) (simp add: demo_mounted_def)
  have tl: "token_list ?r = [demo_token ''MintA'' ''250'' False, demo_token ''MintB'' ''5'' False]"
    by (simp add: connectWallet_def getProvider_def fetchTokens_def new_object_def run_defs
          demo_env_def demo_mounted_def demo_accounts_def demo_token_def token_list_def Let_def)
  have len: "0 < length (token_list ?r)" by (simp add: tl)
  from handleCheckboxChange_flips_one_record[OF re len] tl re show ?thesis by (simp add: demo_token_def)
qed

end
